theory Spec2Isabelle
  imports Complex_Main "HOL-Library.Code_Target_Nat" "HOL-Library.Monad_Syntax"
    "HOL-Library.Sublist"
    "HOL-Library.AList" "HOL-Library.List_Lexorder" "HOL-Library.Product_Lexorder"
begin

section \<open>Python strings\<close>

text \<open>
  A Python \<^verbatim>\<open>str\<close> is a sequence of Unicode code points; a code point is a natural
  number here, so that \<^verbatim>\<open>len\<close> is \<open>length\<close> and an emoji is one element.
  \<open>S\<close> turns a literal into such a sequence (for ASCII literals, code point by code point).
\<close>

type_synonym pystr = "nat list"

definition S :: "string \<Rightarrow> pystr" where
  "S cs = map of_char cs"

text \<open>
  What the Unicode database decides is not part of the repository: \<^verbatim>\<open>str.lower\<close>,
  \<^verbatim>\<open>unicodedata.normalize('NFKD', _)\<close> and the alphanumeric class behind the regular
  expression classes \<^verbatim>\<open>\w\<close> and \<^verbatim>\<open>\b\<close> are taken as parameters.
\<close>

record unicode =
  u_lower :: "pystr \<Rightarrow> pystr"
  u_nfkd :: "pystr \<Rightarrow> pystr"
  u_alnum :: "nat \<Rightarrow> bool"

text \<open>
  Whitespace of \<^verbatim>\<open>str.strip\<close>, \<^verbatim>\<open>str.split\<close> and of the class \<^verbatim>\<open>\s\<close> of a
  \<^verbatim>\<open>str\<close> pattern: the fixed set of code points for which \<^verbatim>\<open>str.isspace\<close> holds.
\<close>

definition is_space :: "nat \<Rightarrow> bool" where
  "is_space c \<longleftrightarrow>
     (9 \<le> c \<and> c \<le> 13) \<or> (28 \<le> c \<and> c \<le> 32) \<or> c = 133 \<or> c = 160 \<or> c = 5760 \<or>
     (8192 \<le> c \<and> c \<le> 8202) \<or> c = 8232 \<or> c = 8233 \<or> c = 8239 \<or> c = 8287 \<or> c = 12288"

definition py_strip :: "pystr \<Rightarrow> pystr" where
  "py_strip s = rev (dropWhile is_space (rev (dropWhile is_space s)))"

text \<open>The class \<^verbatim>\<open>\w\<close>: the underscore, the ASCII letters and digits, and beyond ASCII
  whatever Unicode calls alphanumeric.\<close>

definition re_w :: "'a unicode_scheme \<Rightarrow> nat \<Rightarrow> bool" where
  "re_w U c \<longleftrightarrow>
     c = 95 \<or> (48 \<le> c \<and> c \<le> 57) \<or> (65 \<le> c \<and> c \<le> 90) \<or> (97 \<le> c \<and> c \<le> 122) \<or>
     (128 \<le> c \<and> u_alnum U c)"

section \<open>Text normalizer (retriever.py, \<^verbatim>\<open>normalize_text\<close>)\<close>

text \<open>\<^verbatim>\<open>.encode('ascii', 'ignore').decode('utf-8')\<close>: every code point beyond ASCII is dropped.\<close>

definition ascii_ignore :: "pystr \<Rightarrow> pystr" where
  "ascii_ignore s = filter (\<lambda>c. c < 128) s"

text \<open>
  \<^verbatim>\<open>re.sub(r"'s\b", '', text)\<close>: scanning from the left, an apostrophe (39) followed by
  \<^verbatim>\<open>s\<close> (115) is deleted when a word boundary follows, that is at the end of the text or
  before a character that is not of class \<^verbatim>\<open>\w\<close>.
\<close>

fun sub_possessive :: "'a unicode_scheme \<Rightarrow> pystr \<Rightarrow> pystr" where
  "sub_possessive U (c # d # rest) =
     (if c = 39 \<and> d = 115 \<and> (case rest of [] \<Rightarrow> True | e # _ \<Rightarrow> \<not> re_w U e)
      then sub_possessive U rest
      else c # sub_possessive U (d # rest))"
| "sub_possessive U [c] = [c]"
| "sub_possessive U [] = []"

text \<open>\<^verbatim>\<open>re.sub(r'[^a-z0-9\s]', '', text)\<close> keeps the characters of the negated class.\<close>

definition keep_char :: "nat \<Rightarrow> bool" where
  "keep_char c \<longleftrightarrow> (97 \<le> c \<and> c \<le> 122) \<or> (48 \<le> c \<and> c \<le> 57) \<or> is_space c"

text \<open>\<^verbatim>\<open>re.sub(r'\s+', ' ', text)\<close>: every maximal run of whitespace becomes one space (32).\<close>

function collapse_ws :: "pystr \<Rightarrow> pystr" where
  "collapse_ws [] = []"
| "collapse_ws (c # cs) =
     (if is_space c then 32 # collapse_ws (dropWhile is_space cs) else c # collapse_ws cs)"
  by pat_completeness auto
termination
  by (relation "measure length") (auto simp: length_dropWhile_le less_Suc_eq_le)

definition normalize_text :: "'a unicode_scheme \<Rightarrow> pystr \<Rightarrow> pystr" where
  "normalize_text U text =
     py_strip (collapse_ws (filter keep_char
       (sub_possessive U (ascii_ignore (u_nfkd U (u_lower U text))))))"

text \<open>The shape of a normalized text: lower-case ASCII letters, digits and single spaces
  between words.\<close>

definition plain_char :: "nat \<Rightarrow> bool" where
  "plain_char c \<longleftrightarrow> (97 \<le> c \<and> c \<le> 122) \<or> (48 \<le> c \<and> c \<le> 57)"

fun single_spaced :: "pystr \<Rightarrow> bool" where
  "single_spaced [] = True"
| "single_spaced [c] = plain_char c"
| "single_spaced (c # d # cs) =
     (plain_char c \<and> (if d = 32 then cs \<noteq> [] \<and> single_spaced cs else single_spaced (d # cs)))"

definition plain_text :: "pystr \<Rightarrow> bool" where
  "plain_text s \<longleftrightarrow> (\<forall>c \<in> set s. plain_char c \<or> c = 32)"

text \<open>What the proofs need of the Unicode tables: \<^verbatim>\<open>str.lower\<close> and NFKD leave a text of
  lower-case ASCII letters, digits and spaces as it is.\<close>

definition unicode_stable :: "'a unicode_scheme \<Rightarrow> bool" where
  "unicode_stable U \<longleftrightarrow> (\<forall>s. plain_text s \<longrightarrow> u_lower U s = s \<and> u_nfkd U s = s)"


section \<open>Python built-ins used by the engine\<close>

text \<open>\<^verbatim>\<open>str.split()\<close> without arguments: the maximal runs of non-whitespace, scanned from the
  left; the word being read is kept reversed in the first argument.\<close>

fun split_scan :: "pystr \<Rightarrow> pystr \<Rightarrow> pystr list" where
  "split_scan w [] = (if w = [] then [] else [rev w])"
| "split_scan w (c # cs) =
     (if is_space c then (if w = [] then split_scan [] cs else rev w # split_scan [] cs)
      else split_scan (c # w) cs)"

definition py_split :: "pystr \<Rightarrow> pystr list" where
  "py_split s = split_scan [] s"

fun py_join :: "pystr \<Rightarrow> pystr list \<Rightarrow> pystr" where
  "py_join sep [] = []"
| "py_join sep [x] = x"
| "py_join sep (x # y # ys) = x @ sep @ py_join sep (y # ys)"

text \<open>\<^verbatim>\<open>sub in s\<close> on strings: \<open>sub\<close> occurs somewhere in \<open>s\<close> as a contiguous block.\<close>

primrec py_in :: "pystr \<Rightarrow> pystr \<Rightarrow> bool" where
  "py_in sub [] = (sub = [])"
| "py_in sub (c # cs) = (prefix sub (c # cs) \<or> py_in sub cs)"

text \<open>\<^verbatim>\<open>s.replace(old, new)\<close>: the occurrences of \<open>old\<close> are replaced from the left, without
  overlap; an empty \<open>old\<close> matches before every character and at the end.\<close>

function py_replace :: "pystr \<Rightarrow> pystr \<Rightarrow> pystr \<Rightarrow> pystr" where
  "py_replace old new [] = (if old = [] then new else [])"
| "py_replace old new (c # cs) =
     (if old = [] then new @ c # py_replace old new cs
      else if prefix old (c # cs) then new @ py_replace old new (drop (length old) (c # cs))
      else c # py_replace old new cs)"
  by pat_completeness auto
termination
  by (relation "measure (\<lambda>(old, new, s). length s)") auto

text \<open>
  \<^verbatim>\<open>re.search(r'\b' + re.escape(kw) + r'\b', text)\<close>: the literal \<open>kw\<close> occurs at some
  position with a word boundary on each side. A boundary is a position where exactly one
  of the two neighbouring characters is of class \<^verbatim>\<open>\w\<close> (outside the text counts as not).
\<close>

definition word_at :: "'a unicode_scheme \<Rightarrow> pystr \<Rightarrow> nat \<Rightarrow> bool" where
  "word_at U text j \<longleftrightarrow> j < length text \<and> re_w U (text ! j)"

definition boundary :: "'a unicode_scheme \<Rightarrow> pystr \<Rightarrow> nat \<Rightarrow> bool" where
  "boundary U text p \<longleftrightarrow> ((0 < p \<and> word_at U text (p - 1)) \<noteq> word_at U text p)"

definition re_search_word :: "'a unicode_scheme \<Rightarrow> pystr \<Rightarrow> pystr \<Rightarrow> bool" where
  "re_search_word U kw text =
     list_ex (\<lambda>i. take (length kw) (drop i text) = kw \<and> boundary U text i \<and>
                  boundary U text (i + length kw))
       [0..<Suc (length text)]"

section \<open>External collaborators\<close>

text \<open>A gazetteer row as \<^verbatim>\<open>csv.DictReader\<close> yields it: every field is a string.\<close>

record city_row =
  city :: pystr
  city_ascii :: pystr
  country :: pystr
  lat :: pystr
  lng :: pystr
  admin_name :: pystr
  capital :: pystr
  population :: pystr
  iso2 :: pystr
  iso3 :: pystr

text \<open>What the weather lookup returns, each value as the reply template prints it.\<close>

record weather =
  temperature :: pystr
  humidity :: pystr
  condition :: pystr
  wind :: pystr

text \<open>
  \<^verbatim>\<open>int(float(s))\<close> has three outcomes: an integer; \<^verbatim>\<open>ValueError\<close> (\<open>s\<close> is no number, or
  is a NaN); \<^verbatim>\<open>OverflowError\<close> (\<open>s\<close> denotes an infinity, as \<^verbatim>\<open>inf\<close> or \<^verbatim>\<open>1e999\<close> do).
\<close>

datatype parsed_int = Parsed int | BadLiteral | Infinite

datatype py_error = OverflowError

text \<open>
  A Python \<^verbatim>\<open>float\<close>, as \<^verbatim>\<open>float(s)\<close> returns it for a coordinate: a number (the value of
  a finite double; the two zeros are one value), an infinity (\<^verbatim>\<open>float('inf')\<close> is no
  error) or a NaN. \<open>f_neg\<close> is the sign flip \<^verbatim>\<open>-x\<close>.
\<close>

datatype pyfloat = Num real | PlusInf | MinusInf | NaN

fun f_neg :: "pyfloat \<Rightarrow> pyfloat" where
  "f_neg (Num x) = Num (- x)"
| "f_neg PlusInf = MinusInf"
| "f_neg MinusInf = PlusInf"
| "f_neg NaN = NaN"

text \<open>
  The libraries and services the engine calls and that are not part of the repository:
  the WordNet lemmatizer (one word), \<^verbatim>\<open>difflib.SequenceMatcher(None, a, b).ratio()\<close>,
  number parsing and formatting, the TF-IDF cosine similarity between a query and the
  corpus question of a given index, the weather provider and \<^verbatim>\<open>numpy.random.choice\<close>
  (the index drawn from a list of a given length). \<open>distance_places\<close> stands for the place
  extraction cascade of the distance branch (the pair of names it hands to
  \<^verbatim>\<open>get_city_distance\<close>, if it finds two places); no property below depends on which
  places it finds.

  Floating-point arithmetic is part of the library as well, so that nothing is assumed
  about rounding: \<open>f_add\<close>, \<open>f_sub\<close>, \<open>f_mul\<close>, \<open>f_div\<close> are \<^verbatim>\<open>+\<close>, \<^verbatim>\<open>-\<close>, \<^verbatim>\<open>*\<close>, \<^verbatim>\<open>/\<close> on floats
  (the divisor in the source is the literal 2), \<open>f_pow2\<close> is \<^verbatim>\<open>x ** 2\<close>, and \<open>m_radians\<close>,
  \<open>m_sin\<close>, \<open>m_cos\<close>, \<open>m_sqrt\<close>, \<open>m_atan2\<close> are the functions of the \<^verbatim>\<open>math\<close> module. The
  operations that can raise (\<^verbatim>\<open>ValueError: math domain error\<close> for the sine or cosine of
  an infinity and for the square root of a negative number, \<^verbatim>\<open>OverflowError\<close> for a
  power) return \<open>None\<close> when they do.
\<close>

record lib = unicode +
  u_title :: "pystr \<Rightarrow> pystr"
  u_capitalize :: "pystr \<Rightarrow> pystr"
  u_upper :: "pystr \<Rightarrow> pystr"
  lemmatize :: "pystr \<Rightarrow> pystr"
  ratio :: "pystr \<Rightarrow> pystr \<Rightarrow> real"
  int_float :: "pystr \<Rightarrow> parsed_int"
  float_of :: "pystr \<Rightarrow> pyfloat option"
  format_km :: "pyfloat \<Rightarrow> pystr"
  format_thousands :: "int \<Rightarrow> pystr"
  format_2f :: "pyfloat \<Rightarrow> pystr"
  f_add :: "pyfloat \<Rightarrow> pyfloat \<Rightarrow> pyfloat"
  f_sub :: "pyfloat \<Rightarrow> pyfloat \<Rightarrow> pyfloat"
  f_mul :: "pyfloat \<Rightarrow> pyfloat \<Rightarrow> pyfloat"
  f_div :: "pyfloat \<Rightarrow> pyfloat \<Rightarrow> pyfloat"
  f_pow2 :: "pyfloat \<Rightarrow> pyfloat option"
  m_radians :: "pyfloat \<Rightarrow> pyfloat"
  m_sin :: "pyfloat \<Rightarrow> pyfloat option"
  m_cos :: "pyfloat \<Rightarrow> pyfloat option"
  m_sqrt :: "pyfloat \<Rightarrow> pyfloat option"
  m_atan2 :: "pyfloat \<Rightarrow> pyfloat \<Rightarrow> pyfloat"
  tfidf :: "pystr \<Rightarrow> nat \<Rightarrow> real"
  fetch_weather :: "pystr \<Rightarrow> weather option"
  random_choice :: "nat \<Rightarrow> nat"
  distance_places :: "pystr \<Rightarrow> (pystr \<times> pystr) option"

definition lemmatize_text :: "'a lib_scheme \<Rightarrow> pystr \<Rightarrow> pystr" where
  "lemmatize_text L text = py_join (S '' '') (map (lemmatize L) (py_split text))"

definition fuzzy_similarity :: "'a lib_scheme \<Rightarrow> pystr \<Rightarrow> pystr \<Rightarrow> real" where
  "fuzzy_similarity L a b = ratio L a b"

section \<open>Intent classifier (retriever.py, \<^verbatim>\<open>_detect_intent\<close>)\<close>

text \<open>The table \<^verbatim>\<open>self.intent_keywords\<close>, in the order of its declaration (a Python
  dictionary iterates in insertion order).\<close>

definition intent_keywords :: "(pystr \<times> pystr list) list" where
  "intent_keywords = map (\<lambda>(name, kws). (S name, map S kws))
     [
      (''greeting'', [''hello'', ''hi'', ''hey'', ''salam'', ''greetings'', ''yo'',
         ''good morning'', ''good evening'']),
      (''greeting_personal'', [''how are you'', ''how's it going'', ''what's up'',
         ''how have you been'']),
      (''farewell'', [''bye'', ''goodbye'', ''see you'', ''later'', ''take care'']),
      (''small_talk'', [''how's life'', ''nice weather'', ''what's new'', ''how are things'']),
      (''joke_or_troll'', [''joke'', ''funny'', ''make me laugh'', ''prank'', ''tagine swim'']),
      (''rude_or_aggressive'', [''shut up'', ''stupid'', ''idiot'', ''annoying'', ''dumb'']),
      (''ask_beaches'', [''beach'', ''swim'', ''sand'', ''ocean'', ''sea'', ''sunbathe'',
         ''coast'', ''shore'', ''swimming spot'']),
      (''ask_surfing'', [''surf'', ''surfing'', ''waves'', ''board'', ''learn to surf'']),
      (''ask_waterfalls'', [''waterfall'', ''cascade'', ''swimming spot'', ''hike to waterfall'',
         ''nature water'']),
      (''ask_food'', [''food'', ''eat'', ''hungry'', ''meal'', ''snack'', ''what to eat'',
         ''fud'', ''find food'', ''eating'', ''cuisine'']),
      (''ask_restaurants'', [''restaurant'', ''dining'', ''place to eat'', ''where to eat'',
         ''cafe'', ''seafood'', ''beach restaurants'']),
      (''ask_local_dishes'', [''local dish'', ''bastilla'', ''Moroccan food'', ''specialty'']),
      (''ask_bars'', [''bar'', ''pub'', ''alcohol'', ''drink'', ''cocktail'', ''wine'',
         ''beer'']),
      (''ask_clubs'', [''club'', ''nightclub'', ''party'', ''dance'', ''DJ'', ''disco'']),
      (''ask_nightlife'', [''nightlife'', ''party'', ''evening fun'', ''after dark'',
         ''night entertainment'']),
      (''ask_hotels'', [''hotel'', ''stay'', ''accommodation'', ''lodging'', ''inn'',
         ''where to sleep'']),
      (''ask_riads'', [''riad'', ''guesthouse'', ''traditional house'', ''Moroccan stay'']),
      (''ask_cheap_hotels'', [''cheap hotel'', ''budget stay'', ''hostel'',
         ''low cost lodging'']),
      (''ask_landmarks'', [''landmark'', ''monument'', ''must see'', ''historic site'',
         ''famous place'', ''old medinas'', ''medina'', ''places to visit'']),
      (''ask_attractions'', [''attraction'', ''sight'', ''tourist spot'']),
      (''ask_museums'', [''museum'', ''art gallery'', ''history museum'', ''exhibit'',
         ''cultural site'']),
      (''ask_nature'', [''nature'', ''park'', ''garden'', ''natural site'', ''green area'',
         ''outdoors'', ''mountains'', ''explore'']),
      (''ask_parks'', [''park'', ''botanical garden'', ''playground'', ''open space'',
         ''nature park'']),
      (''ask_hiking'', [''hike'', ''trek'', ''trail'', ''mountain walk'', ''nature walk'',
         ''adventure hike'']),
      (''ask_things_to_do'', [''activities'', ''fun things'', ''things to do'', ''what to do'',
         ''cool'', ''fun'', ''something to do'', ''what to see'', ''famous to see'']),
      (''ask_activities'', [''activity'', ''experience'', ''adventure'', ''excursion'',
         ''recreational activity'']),
      (''ask_family_activities'', [''kids'', ''child-friendly'', ''family fun'',
         ''children activity'']),
      (''ask_kid_friendly'', [''kids'', ''child-friendly'', ''safe for children'',
         ''family-friendly'']),
      (''ask_transport'', [''transport'', ''get around'', ''travel'', ''moving around'',
         ''how to go'', ''commute'']),
      (''ask_taxi'', [''taxi'', ''cab'', ''ride'', ''grab a taxi'', ''hire transport'']),
      (''ask_public_transport'', [''bus'', ''train'', ''metro'', ''tram'', ''public transport'',
         ''local transport'']),
      (''ask_airport'', [''airport'', ''flight'', ''departure'', ''arrival'', ''plane'']),
      (''ask_weather'', [''weather'', ''forecast'', ''rain'', ''sunny'', ''temperature'',
         ''climate'', ''how warm'', ''how cold'', ''weather conditions'']),
      (''ask_distance'', [''distance'', ''how far'', ''how far is'', ''kilometers'',
         ''kilometres'', ''km'', ''miles'', ''how many km'', ''distance between'',
         ''how far from'']),
      (''ask_temperature'', [''temperature'', ''hot'', ''cold'', ''degrees'', ''how warm'',
         ''how cold'', ''warm'', ''degrees'']),
      (''ask_safe_areas'', [''safe'', ''security'', ''dangerous areas'', ''crime'',
         ''unsafe place'']),
      (''ask_scams'', [''scam'', ''trick'', ''fraud'', ''cheat'', ''avoid scams'']),
      (''ask_safety'', [''safety'', ''safe travel'', ''is it safe'']),
      (''ask_shopping'', [''shopping'', ''buy'', ''mall'', ''store'', ''souvenir'']),
      (''ask_souks'', [''souk'', ''bazaar'', ''traditional market'', ''artisan market'',
         ''handicraft'']),
      (''ask_markets'', [''market'', ''best markets'', ''markets'', ''local market'',
         ''food market'']),
      (''ask_culture'', [''culture'', ''tradition'', ''customs'', ''heritage'',
         ''local culture'']),
      (''ask_history'', [''history'', ''heritage'', ''historical site'', ''old city'',
         ''past events'']),
      (''ask_festivals'', [''festival'', ''celebration'', ''event'', ''cultural festival'',
         ''holiday'']),
      (''ask_best_time'', [''best time'', ''season'', ''when to visit'', ''ideal time'']),
      (''ask_family'', [''family'', ''travel with kids'', ''family-friendly'',
         ''with children'']),
      (''general_morocco'', [''Morocco info'', ''country info'', ''overview'', ''general info'',
         ''Morocco guide'', ''about Morocco'', ''something about Morocco'']),
      (''irrelevant_question'', [''random'', ''irrelevant'', ''off-topic'', ''not related''])
     ]"

text \<open>\<^verbatim>\<open>self.intent_keywords.get(name, [])\<close>\<close>

definition keywords_of :: "pystr \<Rightarrow> pystr list" where
  "keywords_of name = (case map_of intent_keywords name of None \<Rightarrow> [] | Some kws \<Rightarrow> kws)"

text \<open>The test of the joke/troll loop: containment (\<^verbatim>\<open>in\<close>) of the trigger in the query, of
  its lemma form in the query's lemma form, or a similarity above 0.8.\<close>

definition troll_hit :: "'a lib_scheme \<Rightarrow> pystr \<Rightarrow> pystr \<Rightarrow> pystr \<Rightarrow> bool" where
  "troll_hit L query query_lem kw =
     (let kw_norm = normalize_text L kw; kw_lem = lemmatize_text L kw_norm
      in py_in kw_norm query \<or> py_in kw_lem query_lem \<or>
         fuzzy_similarity L query kw_norm > 0.8)"

text \<open>The test of the other loops: a whole-word match of the trigger in the query, of its
  lemma form in the query's lemma form, or a similarity above 0.75.\<close>

definition word_hit :: "'a lib_scheme \<Rightarrow> pystr \<Rightarrow> pystr \<Rightarrow> pystr \<Rightarrow> bool" where
  "word_hit L query query_lem kw =
     (let kw_norm = normalize_text L kw; kw_lem = lemmatize_text L kw_norm
      in re_search_word L kw_norm query \<or> re_search_word L kw_lem query_lem \<or>
         fuzzy_similarity L query kw_norm > 0.75)"

text \<open>\<^verbatim>\<open>for kw in keywords: if hit(kw): return ...\<close>\<close>

primrec any_keyword :: "(pystr \<Rightarrow> bool) \<Rightarrow> pystr list \<Rightarrow> bool" where
  "any_keyword hit [] = False"
| "any_keyword hit (kw # kws) = (if hit kw then True else any_keyword hit kws)"

definition priority_intents :: "pystr list" where
  "priority_intents = [S ''joke_or_troll'', S ''ask_weather'', S ''ask_distance'']"

text \<open>The last loop, over the whole table: the three priority categories are skipped, and
  the first category with a trigger that hits is returned.\<close>

primrec scan_intents :: "(pystr \<Rightarrow> bool) \<Rightarrow> (pystr \<times> pystr list) list \<Rightarrow> pystr option" where
  "scan_intents hit [] = None"
| "scan_intents hit (e # es) =
     (if fst e \<in> set priority_intents then scan_intents hit es
      else if any_keyword hit (snd e) then Some (fst e)
      else scan_intents hit es)"

definition detect_intent :: "'a lib_scheme \<Rightarrow> pystr \<Rightarrow> pystr option" where
  "detect_intent L user_input =
     (let query = normalize_text L user_input;
          query_lem = lemmatize_text L query;
          query_expanded =
            py_replace (S '' cn '') (S '' can '')
              (py_replace (S '' n '') (S '' in '')
                (py_replace (S '' 2 '') (S '' to '') query));
          query_expanded_lem = lemmatize_text L query_expanded
      in if any_keyword (troll_hit L query query_lem) (keywords_of (S ''joke_or_troll''))
         then Some (S ''joke_or_troll'')
         else if any_keyword (word_hit L query query_lem) (keywords_of (S ''ask_distance''))
         then Some (S ''ask_distance'')
         else if any_keyword (word_hit L query query_lem) (keywords_of (S ''ask_weather''))
         then Some (S ''ask_weather'')
         else scan_intents
                (\<lambda>kw. word_hit L query query_lem kw \<or>
                        word_hit L query_expanded query_expanded_lem kw)
                intent_keywords)"


section \<open>City gazetteer (city_detector.py)\<close>

text \<open>
  The two literal tables of \<^verbatim>\<open>CityDetector.__init__\<close>. The set \<^verbatim>\<open>moroccan_cities\<close> is
  listed in the order of its declaration; Python leaves the iteration order of a set
  open, and where two cities match one text the source returns whichever comes first.
\<close>

definition moroccan_cities :: "pystr list" where
  "moroccan_cities = map S
     [''agadir'', ''al hoceima'', ''azrou'', ''beni mellal'', ''berkane'',
      ''casablanca'', ''chefchaouen'', ''dakhla'', ''el jadida'', ''errachidia'',
      ''essaouira'', ''fes'', ''guelmim'', ''ifrane'', ''kenitra'',
      ''khouribga'', ''laayoune'', ''larache'', ''marrakech'', ''martil'',
      ''meknes'', ''mohammedia'', ''nador'', ''ouarzazate'', ''oujda'',
      ''rabat'', ''safi'', ''sale'', ''tangier'', ''tetouan'',
      ''tiznit'', ''taroudant'', ''tata'', ''tanger med'', ''sidi ifni'']"

definition moroccan_city_misspellings :: "(pystr \<times> pystr) list" where
  "moroccan_city_misspellings = map (\<lambda>(k, v). (S k, S v))
     [(''casa'', ''casablanca''), (''cali'', ''casablanca''), (''mkech'', ''marrakech''),
      (''marrakch'', ''marrakech''), (''marakech'', ''marrakech''),
      (''marakesh'', ''marrakech''), (''fesss'', ''fes''), (''ksablanka'', ''casablanca''),
      (''casablanka'', ''casablanca''), (''casablanca'', ''casablanca''),
      (''agdir'', ''agadir''), (''agad'', ''agadir''), (''rabay'', ''rabat''),
      (''tangr'', ''tangier''), (''tanger'', ''tangier''), (''tetouan'', ''tetouan''),
      (''meknes'', ''meknes'')]"

text \<open>The state \<^verbatim>\<open>_load_global_cities\<close> builds: the dictionary of cities (in insertion
  order) and the set of countries (in the order of first occurrence).\<close>

record detector =
  global_cities :: "(pystr \<times> city_row) list"
  countries :: "pystr list"

subsection \<open>Loading (\<^verbatim>\<open>_load_global_cities\<close>)\<close>

text \<open>\<^verbatim>\<open>int(float(row.get('population', 0) or 0))\<close>: an empty field counts as 0.\<close>

definition population_or_0 :: "'a lib_scheme \<Rightarrow> pystr \<Rightarrow> parsed_int" where
  "population_or_0 L s = (if s = [] then Parsed 0 else int_float L s)"

text \<open>The entry stored for a row: the city name stripped, the other fields as read.\<close>

definition stored_row :: "city_row \<Rightarrow> city_row" where
  "stored_row row = row\<lparr>city := py_strip (city row)\<rparr>"

definition city_key :: "'a lib_scheme \<Rightarrow> city_row \<Rightarrow> pystr" where
  "city_key L row = py_strip (u_lower L (py_strip (city row)))"

definition add_country :: "'a lib_scheme \<Rightarrow> city_row \<Rightarrow> pystr list \<Rightarrow> pystr list" where
  "add_country L row cs =
     (let country_name = py_strip (country row);
          c = py_strip (u_lower L country_name)
      in if country_name = [] \<or> c \<in> set cs then cs else cs @ [c])"

text \<open>The value the loop works with after its inner handler: \<^verbatim>\<open>ValueError\<close> and
  \<^verbatim>\<open>TypeError\<close> are caught and give 0; an \<^verbatim>\<open>OverflowError\<close> is not caught there.\<close>

definition caught_population :: "'a lib_scheme \<Rightarrow> pystr \<Rightarrow> int option" where
  "caught_population L s =
     (case population_or_0 L s of Parsed n \<Rightarrow> Some n | BadLiteral \<Rightarrow> Some 0 | Infinite \<Rightarrow> None)"

text \<open>
  One turn of the loop on the dictionary \<^verbatim>\<open>cities\<close>; \<open>None\<close> when the turn raises (the
  \<^verbatim>\<open>OverflowError\<close> that the inner handlers let through).
\<close>

definition load_row ::
  "'a lib_scheme \<Rightarrow> city_row \<Rightarrow> (pystr \<times> city_row) list \<Rightarrow> (pystr \<times> city_row) list option" where
  "load_row L row cities =
     (if py_strip (city row) = [] then Some cities
      else case caught_population L (population row) of
        None \<Rightarrow> None
      | Some pop \<Rightarrow>
          (case map_of cities (city_key L row) of
             None \<Rightarrow> Some (cities @ [(city_key L row, stored_row row)])
           | Some old \<Rightarrow>
               (case caught_population L (population old) of
                  None \<Rightarrow> None
                | Some existing_pop \<Rightarrow>
                    if pop > existing_pop
                    then Some (AList.update (city_key L row) (stored_row row) cities)
                    else Some cities)))"

text \<open>
  The loop over the rows. When it is left by an exception, the outer handler prints the
  error and the function returns the dictionary as filled so far; the countries
  collected are then never stored, and the detector's set of countries stays empty.
\<close>

fun load_rows ::
  "'a lib_scheme \<Rightarrow> city_row list \<Rightarrow> (pystr \<times> city_row) list \<Rightarrow> pystr list \<Rightarrow> detector" where
  "load_rows L [] cities cs = \<lparr>global_cities = cities, countries = cs\<rparr>"
| "load_rows L (row # rows) cities cs =
     (case load_row L row cities of
        None \<Rightarrow> \<lparr>global_cities = cities, countries = []\<rparr>
      | Some cities' \<Rightarrow> load_rows L rows cities' (add_country L row cs))"

definition load_global_cities :: "'a lib_scheme \<Rightarrow> city_row list \<Rightarrow> detector" where
  "load_global_cities L rows = load_rows L rows [] []"

subsection \<open>Detection\<close>

text \<open>\<^verbatim>\<open>CityDetector._normalize_text\<close>: lower, strip, delete what is neither \<^verbatim>\<open>\w\<close> nor
  \<^verbatim>\<open>\s\<close>, collapse whitespace, strip.\<close>

definition cd_normalize_text :: "'a unicode_scheme \<Rightarrow> pystr \<Rightarrow> pystr" where
  "cd_normalize_text U text =
     py_strip (collapse_ws (filter (\<lambda>c. re_w U c \<or> is_space c) (py_strip (u_lower U text))))"

text \<open>
  \<^verbatim>\<open>difflib.get_close_matches(word, possibilities, n=1, cutoff)\<close>: the possibilities whose
  ratio against the word reaches the cutoff, and of these the greatest pair
  (ratio, possibility). The two quick ratios the library tests first are upper bounds of
  the ratio and do not change the result.
\<close>

fun greatest_pair :: "real \<times> pystr \<Rightarrow> (real \<times> pystr) list \<Rightarrow> real \<times> pystr" where
  "greatest_pair best [] = best"
| "greatest_pair best (p # ps) = greatest_pair (if best < p then p else best) ps"

definition close_match :: "'a lib_scheme \<Rightarrow> pystr \<Rightarrow> pystr list \<Rightarrow> real \<Rightarrow> pystr option" where
  "close_match L word possibilities cutoff =
     (case filter (\<lambda>p. cutoff \<le> fst p) (map (\<lambda>x. (ratio L x word, x)) possibilities) of
        [] \<Rightarrow> None
      | p # ps \<Rightarrow> Some (snd (greatest_pair p ps)))"

primrec first_misspelling :: "'a lib_scheme \<Rightarrow> pystr \<Rightarrow> (pystr \<times> pystr) list \<Rightarrow> pystr option" where
  "first_misspelling L query [] = None"
| "first_misspelling L query (m # ms) =
     (if re_search_word L (fst m) query then Some (snd m) else first_misspelling L query ms)"

primrec first_city :: "'a lib_scheme \<Rightarrow> pystr \<Rightarrow> pystr list \<Rightarrow> pystr option" where
  "first_city L query [] = None"
| "first_city L query (c # cs) =
     (if re_search_word L c query then Some c else first_city L query cs)"

primrec first_fuzzy_word :: "'a lib_scheme \<Rightarrow> pystr list \<Rightarrow> pystr option" where
  "first_fuzzy_word L [] = None"
| "first_fuzzy_word L (w # ws) =
     (if 4 \<le> length w
      then (case close_match L w moroccan_cities 0.75 of
              Some m \<Rightarrow> Some m
            | None \<Rightarrow> first_fuzzy_word L ws)
      else first_fuzzy_word L ws)"

definition detect_moroccan_city :: "'a lib_scheme \<Rightarrow> pystr \<Rightarrow> pystr option" where
  "detect_moroccan_city L user_input =
     (case first_misspelling L (cd_normalize_text L user_input) moroccan_city_misspellings of
        Some canonical \<Rightarrow> Some canonical
      | None \<Rightarrow>
         (case first_city L (cd_normalize_text L user_input) moroccan_cities of
            Some c \<Rightarrow> Some c
          | None \<Rightarrow> first_fuzzy_word L (py_split (cd_normalize_text L user_input))))"

text \<open>\<^verbatim>\<open>_get_population\<close>: \<^verbatim>\<open>int(float(...))\<close> with \<^verbatim>\<open>ValueError\<close> and \<^verbatim>\<open>TypeError\<close> caught.\<close>

definition get_population :: "'a lib_scheme \<Rightarrow> city_row \<Rightarrow> py_error + int" where
  "get_population L city_data =
     (case int_float L (population city_data) of
        Parsed n \<Rightarrow> Inr n
      | BadLiteral \<Rightarrow> Inr 0
      | Infinite \<Rightarrow> Inl OverflowError)"

text \<open>The loop of \<^verbatim>\<open>detect_global_city\<close> over the words of the input as typed.\<close>

fun global_candidates ::
  "'a lib_scheme \<Rightarrow> detector \<Rightarrow> pystr list \<Rightarrow> py_error + (city_row \<times> int) list" where
  "global_candidates L D [] = Inr []"
| "global_candidates L D (w # ws) =
     (if 4 \<le> length (cd_normalize_text L w)
      then (case map_of (global_cities D) (cd_normalize_text L w) of
              None \<Rightarrow> global_candidates L D ws
            | Some city_data \<Rightarrow>
               (case get_population L city_data of
                  Inl e \<Rightarrow> Inl e
                | Inr pop \<Rightarrow>
                   (case global_candidates L D ws of
                      Inl e \<Rightarrow> Inl e
                    | Inr cands \<Rightarrow>
                        Inr (if 50000 \<le> pop then (city_data, pop) # cands else cands))))
      else global_candidates L D ws)"

text \<open>\<^verbatim>\<open>candidates.sort(key=lambda x: x[1], reverse=True)\<close> is a stable sort by descending
  population; the first entry is returned.\<close>

definition detect_global_city :: "'a lib_scheme \<Rightarrow> detector \<Rightarrow> pystr \<Rightarrow> py_error + city_row option" where
  "detect_global_city L D user_input =
     (case global_candidates L D (py_split user_input) of
        Inl e \<Rightarrow> Inl e
      | Inr cands \<Rightarrow>
         (case sort_key (\<lambda>c. - snd c) cands of
            [] \<Rightarrow> Inr None
          | c # _ \<Rightarrow> Inr (Some (fst c))))"

definition detect_city ::
  "'a lib_scheme \<Rightarrow> detector \<Rightarrow> pystr \<Rightarrow> py_error + (pystr option \<times> city_row option)" where
  "detect_city L D user_input =
     (case detect_moroccan_city L user_input of
        Some m \<Rightarrow> Inr (Some m, None)
      | None \<Rightarrow>
         (case detect_global_city L D user_input of
            Inl e \<Rightarrow> Inl e
          | Inr g \<Rightarrow> Inr (None, g)))"

definition is_morocco_mentioned :: "'a lib_scheme \<Rightarrow> pystr \<Rightarrow> bool" where
  "is_morocco_mentioned L user_input = re_search_word L (S ''morocco'') (u_lower L user_input)"

text \<open>\<^verbatim>\<open>detect_country\<close>: the countries that occur as whole words (one test for names with
  a space and for names without), the first that is not Morocco if there is one.\<close>

definition detect_country :: "'a lib_scheme \<Rightarrow> detector \<Rightarrow> pystr \<Rightarrow> pystr option" where
  "detect_country L D user_input =
     (case filter (\<lambda>c. re_search_word L c (cd_normalize_text L user_input)) (countries D) of
        [] \<Rightarrow> None
      | d # ds \<Rightarrow>
         (case filter (\<lambda>c. u_lower L c \<noteq> S ''morocco'') (d # ds) of
            [] \<Rightarrow> Some d
          | c # _ \<Rightarrow> Some c))"


section \<open>Coordinate resolver (retriever.py, \<^verbatim>\<open>find_city_coordinates\<close>)\<close>

definition CITY_MATCH_THRESHOLD :: real where
  "CITY_MATCH_THRESHOLD = 0.80"

text \<open>A resolved place: display name, latitude, longitude, country, confidence score.\<close>

type_synonym place = "pystr \<times> pyfloat \<times> pyfloat \<times> pystr \<times> real"

text \<open>\<^verbatim>\<open>float(data.get('lat') or 0.0)\<close>; \<open>None\<close> is the \<^verbatim>\<open>ValueError\<close> the source catches.\<close>

definition coordinate :: "'a lib_scheme \<Rightarrow> pystr \<Rightarrow> pyfloat option" where
  "coordinate L s = (if s = [] then Some (Num 0) else float_of L s)"

text \<open>\<^verbatim>\<open>a or b or c\<close> on strings: the first that is not empty, else the last.\<close>

definition py_or :: "pystr \<Rightarrow> pystr \<Rightarrow> pystr" where
  "py_or a b = (if a \<noteq> [] then a else b)"

definition resolved :: "'a lib_scheme \<Rightarrow> city_row \<Rightarrow> pystr \<Rightarrow> real \<Rightarrow> place option" where
  "resolved L data city_name score =
     (case coordinate L (lat data) of
        None \<Rightarrow> None
      | Some la \<Rightarrow>
         (case coordinate L (lng data) of
            None \<Rightarrow> None
          | Some lo \<Rightarrow>
              Some (py_or (city data) (py_or (city_ascii data) city_name), la, lo,
                    country data, score)))"

definition similarity :: "'a lib_scheme \<Rightarrow> pystr \<Rightarrow> pystr \<Rightarrow> real" where
  "similarity L a b = (if a = [] \<or> b = [] then 0 else ratio L a b)"

text \<open>\<^verbatim>\<open>int(float(v.get('population') or 0))\<close> under \<^verbatim>\<open>except Exception\<close>: every failure is 0.\<close>

definition population_else_0 :: "'a lib_scheme \<Rightarrow> city_row \<Rightarrow> int" where
  "population_else_0 L v = (case population_or_0 L (population v) of Parsed n \<Rightarrow> n | _ \<Rightarrow> 0)"

text \<open>The score of one gazetteer entry, with the boost for Moroccan entries.\<close>

definition entry_score :: "'a lib_scheme \<Rightarrow> bool \<Rightarrow> pystr \<Rightarrow> pystr \<times> city_row \<Rightarrow> real" where
  "entry_score L is_moroccan_query query e =
     (let score = max (similarity L query (fst e))
                      (similarity L query
                         (normalize_text L (py_or (city_ascii (snd e)) (city (snd e)))))
      in if is_moroccan_query \<and> u_lower L (py_strip (country (snd e))) = S ''morocco''
         then min 1 (score + 0.15) else score)"

text \<open>A candidate: key, entry, score, population.\<close>

type_synonym candidate = "pystr \<times> city_row \<times> real \<times> int"

definition candidates_of ::
  "'a lib_scheme \<Rightarrow> bool \<Rightarrow> pystr \<Rightarrow> real \<Rightarrow> (pystr \<times> city_row) list \<Rightarrow> candidate list" where
  "candidates_of L is_moroccan_query query dynamic_threshold gc =
     filter (\<lambda>c. dynamic_threshold \<le> fst (snd (snd c)))
       (map (\<lambda>e. (fst e, snd e, entry_score L is_moroccan_query query e,
                   population_else_0 L (snd e))) gc)"

text \<open>\<^verbatim>\<open>pick_best\<close>: \<^verbatim>\<open>sorted(pool, key=lambda x: (x[2], x[3]), reverse=True)[0]\<close>, a stable sort
  by descending (score, population).\<close>

definition pick_best :: "candidate list \<Rightarrow> candidate option" where
  "pick_best pool =
     (case sort_key (\<lambda>c. (- fst (snd (snd c)), - snd (snd (snd c)))) pool of
        [] \<Rightarrow> None
      | c # _ \<Rightarrow> Some c)"

definition choose_candidate :: "candidate list \<Rightarrow> candidate option" where
  "choose_candidate cands =
     (case pick_best (filter (\<lambda>c. 50000 \<le> snd (snd (snd c))) cands) of
        Some c \<Rightarrow> Some c
      | None \<Rightarrow> pick_best (filter (\<lambda>c. snd (snd (snd c)) < 50000) cands))"

definition find_city_coordinates :: "'a lib_scheme \<Rightarrow> detector \<Rightarrow> pystr \<Rightarrow> place option" where
  "find_city_coordinates L D city_name =
     (if city_name = [] then None
      else case map_of (global_cities D) (normalize_text L city_name) of
        Some data \<Rightarrow> resolved L data city_name 1.0
      | None \<Rightarrow>
         (case choose_candidate
                 (candidates_of L (detect_moroccan_city L city_name \<noteq> None)
                    (normalize_text L city_name)
                    (if length (normalize_text L city_name) \<le> 5 then 0.90
                     else CITY_MATCH_THRESHOLD)
                    (global_cities D)) of
            None \<Rightarrow> None
          | Some c \<Rightarrow> resolved L (fst (snd c)) city_name (fst (snd (snd c)))))"

section \<open>Distance calculator (retriever.py)\<close>

text \<open>
  \<^verbatim>\<open>haversine_distance\<close>, in the order in which Python evaluates it; \<open>None\<close> when one of
  the operations raises. The literals \<^verbatim>\<open>6371.0\<close>, \<^verbatim>\<open>2\<close> and \<^verbatim>\<open>1\<close> are exact as floats.
\<close>

definition haversine_distance ::
  "'a lib_scheme \<Rightarrow> pyfloat \<Rightarrow> pyfloat \<Rightarrow> pyfloat \<Rightarrow> pyfloat \<Rightarrow> pyfloat option" where
  "haversine_distance L lat1 lon1 lat2 lon2 =
     (let R = Num 6371;
          rlat1 = m_radians L lat1; rlon1 = m_radians L lon1;
          rlat2 = m_radians L lat2; rlon2 = m_radians L lon2;
          dlat = f_sub L rlat2 rlat1;
          dlon = f_sub L rlon2 rlon1
      in do {
           s1 \<leftarrow> m_sin L (f_div L dlat (Num 2));
           h1 \<leftarrow> f_pow2 L s1;
           c1 \<leftarrow> m_cos L rlat1;
           c2 \<leftarrow> m_cos L rlat2;
           s2 \<leftarrow> m_sin L (f_div L dlon (Num 2));
           h2 \<leftarrow> f_pow2 L s2;
           let a = f_add L h1 (f_mul L (f_mul L c1 c2) h2);
           sa \<leftarrow> m_sqrt L a;
           sb \<leftarrow> m_sqrt L (f_sub L (Num 1) a);
           let c = f_mul L (Num 2) (m_atan2 L sa sb);
           Some (f_mul L R c)
         })"

definition did_you_mean :: "pystr \<Rightarrow> pystr \<Rightarrow> pystr" where
  "did_you_mean name country_name =
     S ''I'm not sure which city you mean. Did you mean '' @
     (if country_name \<noteq> [] then name @ S '' ('' @ country_name @ S '')'' else name) @ S ''?''"

definition is_morocco_place :: "'a lib_scheme \<Rightarrow> pystr \<Rightarrow> pystr \<Rightarrow> bool" where
  "is_morocco_place L name country_name \<longleftrightarrow>
     u_lower L (py_strip country_name) = S ''morocco'' \<or>
     normalize_text L name \<in> set moroccan_cities"

text \<open>
  \<^verbatim>\<open>get_city_distance\<close>. The resolver \<^verbatim>\<open>self.find_city_coordinates\<close> is the argument
  \<open>resolve\<close>; the engine passes \<open>find_city_coordinates L D\<close>. An exception raised by the
  haversine formula is caught and answered with an apology.
\<close>

definition get_city_distance ::
  "'a lib_scheme \<Rightarrow> (pystr \<Rightarrow> place option) \<Rightarrow> pystr \<Rightarrow> pystr \<Rightarrow> pystr" where
  "get_city_distance L resolve city_a city_b =
     (if city_a = [] \<or> city_b = [] then S ''Please provide two valid city names.''
      else case resolve city_a of
        None \<Rightarrow> S ''I couldn't identify that city, can you rephrase or specify the country?''
      | Some (name_a, lat_a, lng_a, country_a, score_a) \<Rightarrow>
         (case resolve city_b of
            None \<Rightarrow> S ''I couldn't identify that city, can you rephrase or specify the country?''
          | Some (name_b, lat_b, lng_b, country_b, score_b) \<Rightarrow>
              if score_a < CITY_MATCH_THRESHOLD then did_you_mean name_a country_a
              else if score_b < CITY_MATCH_THRESHOLD then did_you_mean name_b country_b
              else case haversine_distance L lat_a lng_a lat_b lng_b of
                None \<Rightarrow> S ''Sorry, I couldn't compute the distance right now.''
              | Some distance \<Rightarrow>
                  (if \<not> (is_morocco_place L name_a country_a \<and>
                          is_morocco_place L name_b country_b)
                   then S ''My main specialty is Morocco, but here is the information you requested: ''
                   else []) @
                  S ''The distance between '' @ name_a @ S '' and '' @ name_b @ S '' is '' @
                  format_km L distance @ S '' km.''))"


section \<open>World city formatter (world_city_formatter.py)\<close>

definition present :: "pystr \<Rightarrow> bool" where
  "present s \<longleftrightarrow> s \<noteq> [] \<and> s \<noteq> S ''N/A''"

text \<open>The facts listed for a city; the population has been rendered before.\<close>

definition world_city_facts :: "'a lib_scheme \<Rightarrow> city_row \<Rightarrow> pystr \<Rightarrow> pystr list" where
  "world_city_facts L city_data pop_text =
     (if present (country city_data) then [S ''- Country: '' @ country city_data] else []) @
     (if present pop_text then [S ''- Population: '' @ pop_text] else []) @
     (if present (admin_name city_data) then [S ''- Located in: '' @ admin_name city_data]
      else []) @
     (if present (capital city_data) \<and> u_lower L (capital city_data) \<noteq> S ''admin'' \<and>
         u_capitalize L (capital city_data) \<noteq> []
      then [S ''- Capital: '' @ u_capitalize L (capital city_data)] else []) @
     (if present (lat city_data) \<and> present (lng city_data)
      then (case (float_of L (lat city_data), float_of L (lng city_data)) of
              (Some lat_f, Some lng_f) \<Rightarrow>
                [S ''- Coordinates: '' @ format_2f L lat_f @ S '', '' @ format_2f L lng_f]
            | _ \<Rightarrow> [])
      else [])"

text \<open>\<^verbatim>\<open>int(float(population))\<close> is guarded against \<^verbatim>\<open>ValueError\<close> and \<^verbatim>\<open>TypeError\<close> only.\<close>

definition format_world_city_response :: "'a lib_scheme \<Rightarrow> city_row \<Rightarrow> py_error + pystr" where
  "format_world_city_response L city_data =
     (case int_float L (population city_data) of
        Infinite \<Rightarrow> Inl OverflowError
      | parsed \<Rightarrow>
          Inr (S ''Sorry, '' @ city city_data @
               S '' is not in Morocco so it's not my specialty.'' @ [10] @
               S ''But here's what I found about '' @ city city_data @ S '':'' @ [10] @
               concat (map (\<lambda>fact. fact @ [10])
                 (take 5 (world_city_facts L city_data
                    (case parsed of Parsed n \<Rightarrow> format_thousands L n | _ \<Rightarrow> S ''N/A'')))) @
               [10] @
               S ''If you want, I can help you explore amazing Moroccan cities instead!''))"

section \<open>Answer ranking engine (retriever.py, \<^verbatim>\<open>get_answer\<close>)\<close>

text \<open>A corpus entry; the normalized forms written once by \<^verbatim>\<open>__init__\<close> are functions of it.\<close>

record qa_entry =
  question :: pystr
  assistant :: pystr
  entry_city :: pystr
  intent :: pystr

definition norm_question :: "'a lib_scheme \<Rightarrow> qa_entry \<Rightarrow> pystr" where
  "norm_question L e = normalize_text L (question e)"

definition norm_city :: "'a lib_scheme \<Rightarrow> qa_entry \<Rightarrow> pystr" where
  "norm_city L e = normalize_text L (entry_city e)"

definition norm_intent :: "'a lib_scheme \<Rightarrow> qa_entry \<Rightarrow> pystr" where
  "norm_intent L e = u_lower L (intent e)"

record retriever =
  qa_list :: "qa_entry list"
  city_detector :: detector

type_synonym answers = "(pystr \<times> real) list"

definition generic_fallback :: "pystr list" where
  "generic_fallback =
     [S ''I'' @ [8217] @ S ''m not sure about that yet.'',
      S ''Could you clarify your question?'',
      S ''Sorry, I don'' @ [8217] @ S ''t know that yet.'']"

text \<open>\<^verbatim>\<open>np.random.choice(xs)\<close> on a list that is not empty: the library draws the index.\<close>

definition py_choice :: "'a lib_scheme \<Rightarrow> 'b list \<Rightarrow> 'b" where
  "py_choice L xs = xs ! (random_choice L (length xs) mod length xs)"

text \<open>The slice \<^verbatim>\<open>xs[:k]\<close>; a negative \<open>k\<close> counts from the end.\<close>

definition py_take :: "int \<Rightarrow> 'b list \<Rightarrow> 'b list" where
  "py_take k xs = (if 0 \<le> k then take (nat k) xs else take (length xs - nat (- k)) xs)"

text \<open>\<^verbatim>\<open>scored.sort(key=lambda x: x[1], reverse=True)\<close>: stable, by descending score.\<close>

definition sort_desc :: "answers \<Rightarrow> answers" where
  "sort_desc xs = sort_key (\<lambda>x. - snd x) xs"

text \<open>The exact-match loop over the corpus.\<close>

primrec exact_match :: "'a lib_scheme \<Rightarrow> pystr \<Rightarrow> qa_entry list \<Rightarrow> qa_entry option" where
  "exact_match L user_norm [] = None"
| "exact_match L user_norm (entry # rest) =
     (if user_norm = norm_question L entry then Some entry else exact_match L user_norm rest)"

definition immediate_intents :: "pystr list" where
  "immediate_intents = map S [''greeting'', ''farewell'', ''joke_or_troll'', ''greeting_personal'']"

definition excluded_intents :: "pystr list" where
  "excluded_intents =
     map S [''greeting'', ''farewell'', ''irrelevant_question'', ''rude_or_aggressive'']"

text \<open>The entries of the detected intent, when it is one of the immediate ones.\<close>

definition immediate_candidates ::
  "'a lib_scheme \<Rightarrow> retriever \<Rightarrow> pystr option \<Rightarrow> qa_entry list" where
  "immediate_candidates L R detected_intent =
     (case detected_intent of
        None \<Rightarrow> []
      | Some i \<Rightarrow>
          if i \<in> set immediate_intents
          then filter (\<lambda>e. norm_intent L e = i) (qa_list R) else [])"

text \<open>Narrowing: \<^verbatim>\<open>matches = [i for i in idxs if ...]; if matches: idxs = matches\<close>.\<close>

definition narrow :: "(nat \<Rightarrow> bool) \<Rightarrow> nat list \<Rightarrow> nat list" where
  "narrow keep idxs = (if filter keep idxs = [] then idxs else filter keep idxs)"

definition narrow_by_intent ::
  "'a lib_scheme \<Rightarrow> retriever \<Rightarrow> pystr option \<Rightarrow> nat list \<Rightarrow> nat list" where
  "narrow_by_intent L R detected_intent idxs =
     (case detected_intent of
        None \<Rightarrow> idxs
      | Some i \<Rightarrow> if i = [] then idxs else narrow (\<lambda>k. norm_intent L (qa_list R ! k) = i) idxs)"

definition base_candidates :: "'a lib_scheme \<Rightarrow> retriever \<Rightarrow> nat list" where
  "base_candidates L R =
     filter (\<lambda>i. norm_intent L (qa_list R ! i) \<notin> set excluded_intents) [0..<length (qa_list R)]"

text \<open>The blend of TF-IDF cosine and fuzzy ratio, and the candidates above the bar.\<close>

definition blended :: "'a lib_scheme \<Rightarrow> retriever \<Rightarrow> real \<Rightarrow> real \<Rightarrow> pystr \<Rightarrow> nat \<Rightarrow> real" where
  "blended L R w_tfidf w_fuzzy user_norm idx =
     w_tfidf * tfidf L user_norm idx +
     w_fuzzy * fuzzy_similarity L user_norm (norm_question L (qa_list R ! idx))"

definition scored_candidates :: "'a lib_scheme \<Rightarrow> retriever \<Rightarrow> pystr \<Rightarrow> nat list \<Rightarrow> answers" where
  "scored_candidates L R user_norm idxs =
     filter (\<lambda>a. 0.15 < snd a)
       (map (\<lambda>idx. (assistant (qa_list R ! idx), blended L R 0.6 0.4 user_norm idx)) idxs)"

definition random_fallback :: "'a lib_scheme \<Rightarrow> answers" where
  "random_fallback L = [(py_choice L generic_fallback, 0.0)]"

text \<open>The body of \<^verbatim>\<open>_answer_moroccan_city_query\<close>, on its two local values: the normalized
  input and the intent it detects.\<close>

definition moroccan_city_answer ::
  "'a lib_scheme \<Rightarrow> retriever \<Rightarrow> pystr \<Rightarrow> int \<Rightarrow> pystr \<Rightarrow> pystr option \<Rightarrow> answers" where
  "moroccan_city_answer L R city_name top_k user_norm detected_intent =
     (case exact_match L user_norm (qa_list R) of
        Some entry \<Rightarrow> [(assistant entry, 1.0)]
      | None \<Rightarrow>
          if immediate_candidates L R detected_intent \<noteq> []
          then [(assistant (py_choice L (immediate_candidates L R detected_intent)), 1.0)]
          else
            (case narrow_by_intent L R detected_intent
                    (narrow (\<lambda>i. norm_city L (qa_list R ! i) = city_name)
                       (base_candidates L R)) of
               [] \<Rightarrow> random_fallback L
             | i # idxs \<Rightarrow>
                 (case sort_desc (scored_candidates L R user_norm (i # idxs)) of
                    [] \<Rightarrow> random_fallback L
                  | a # as \<Rightarrow> py_take top_k (a # as))))"

definition answer_moroccan_city_query ::
  "'a lib_scheme \<Rightarrow> retriever \<Rightarrow> pystr \<Rightarrow> pystr \<Rightarrow> int \<Rightarrow> answers" where
  "answer_moroccan_city_query L R user_input city_name top_k =
     moroccan_city_answer L R city_name top_k
       (normalize_text L user_input) (detect_intent L user_input)"

text \<open>The keyword boost of the general-Morocco branch.\<close>

definition boost_stop_words :: "pystr list" where
  "boost_stop_words =
     map S [''what'', ''are'', ''the'', ''a'', ''an'', ''is'', ''in'', ''of'', ''to'', ''for'',
            ''and'', ''or'', ''with'', ''on'', ''at'', ''by'', ''from'', ''main'']"

definition key_words :: "'a lib_scheme \<Rightarrow> pystr \<Rightarrow> pystr list" where
  "key_words L user_norm =
     filter (\<lambda>w. w \<notin> set boost_stop_words \<and> 2 < length w)
       (remdups (py_split (u_lower L user_norm)))"

primrec boost_sum :: "pystr \<Rightarrow> pystr list \<Rightarrow> real" where
  "boost_sum candidate_question [] = 0.0"
| "boost_sum candidate_question (w # ws) =
     (if py_in w candidate_question then (if 6 < length w then 0.25 else 0.15) else 0)
     + boost_sum candidate_question ws"

definition boosted :: "'a lib_scheme \<Rightarrow> pystr \<Rightarrow> pystr \<Rightarrow> real \<Rightarrow> real" where
  "boosted L user_norm candidate_question final_score =
     (if key_words L user_norm = [] then final_score
      else if 0 < min 0.80 (boost_sum candidate_question (key_words L user_norm))
      then final_score * (1 + min 0.80 (boost_sum candidate_question (key_words L user_norm)))
      else final_score)"

definition morocco_scored :: "'a lib_scheme \<Rightarrow> retriever \<Rightarrow> pystr \<Rightarrow> nat list \<Rightarrow> answers" where
  "morocco_scored L R user_norm idxs =
     filter (\<lambda>a. 0.1 < snd a)
       (map (\<lambda>idx. (assistant (qa_list R ! idx),
                boosted L user_norm (u_lower L (norm_question L (qa_list R ! idx)))
                  (blended L R 0.85 0.15 user_norm idx))) idxs)"

text \<open>\<^verbatim>\<open>qa_list.index(e)\<close> for an entry of the list, and the index of the first maximum
  of an array that is not empty (\<^verbatim>\<open>argmax\<close>).\<close>

primrec index_of :: "'b \<Rightarrow> 'b list \<Rightarrow> nat" where
  "index_of e [] = 0"
| "index_of e (x # xs) = (if x = e then 0 else Suc (index_of e xs))"

fun argmax_from :: "nat \<Rightarrow> real \<Rightarrow> nat \<Rightarrow> real list \<Rightarrow> nat" where
  "argmax_from best_i best i [] = best_i"
| "argmax_from best_i best i (x # xs) =
     (if best < x then argmax_from i x (Suc i) xs else argmax_from best_i best (Suc i) xs)"

definition argmax :: "real list \<Rightarrow> nat" where
  "argmax xs = (case xs of [] \<Rightarrow> 0 | x # rest \<Rightarrow> argmax_from 0 x 1 rest)"

text \<open>The body of \<^verbatim>\<open>_answer_general_morocco_query\<close>, on its two local values.\<close>

definition general_morocco_answer ::
  "'a lib_scheme \<Rightarrow> retriever \<Rightarrow> int \<Rightarrow> pystr \<Rightarrow> pystr option \<Rightarrow> answers" where
  "general_morocco_answer L R top_k user_norm detected_intent =
     (case exact_match L user_norm (qa_list R) of
        Some entry \<Rightarrow> [(assistant entry, 1.0)]
      | None \<Rightarrow>
          if immediate_candidates L R detected_intent \<noteq> []
          then [(assistant (py_choice L (immediate_candidates L R detected_intent)), 1.0)]
          else
            (case map (\<lambda>e. index_of e (qa_list R))
                    (filter (\<lambda>e. norm_intent L e = S ''general_morocco'') (qa_list R)) of
               [] \<Rightarrow> random_fallback L
             | i # idxs \<Rightarrow>
                 (case sort_desc (morocco_scored L R user_norm (i # idxs)) of
                    [] \<Rightarrow>
                      [(assistant
                          (qa_list R !
                            ((i # idxs) ! argmax (map (tfidf L user_norm) (i # idxs)))),
                        Max (set (map (tfidf L user_norm) (i # idxs))))]
                  | a # as \<Rightarrow> py_take top_k (a # as))))"

definition answer_general_morocco_query ::
  "'a lib_scheme \<Rightarrow> retriever \<Rightarrow> pystr \<Rightarrow> int \<Rightarrow> answers" where
  "answer_general_morocco_query L R user_input top_k =
     general_morocco_answer L R top_k (normalize_text L user_input) (detect_intent L user_input)"

text \<open>The body of \<^verbatim>\<open>_answer_generic_query\<close>; the intent is the one \<^verbatim>\<open>get_answer\<close> detected.\<close>

definition generic_answer ::
  "'a lib_scheme \<Rightarrow> retriever \<Rightarrow> pystr \<Rightarrow> pystr option \<Rightarrow> answers" where
  "generic_answer L R user_norm detected_intent =
     (case exact_match L user_norm (qa_list R) of
        Some entry \<Rightarrow> [(assistant entry, 1.0)]
      | None \<Rightarrow>
          if immediate_candidates L R detected_intent \<noteq> []
          then [(assistant (py_choice L (immediate_candidates L R detected_intent)), 1.0)]
          else
            (case narrow_by_intent L R detected_intent (base_candidates L R) of
               [] \<Rightarrow> random_fallback L
             | i # idxs \<Rightarrow>
                 (case sort_desc (scored_candidates L R user_norm (i # idxs)) of
                    [] \<Rightarrow> random_fallback L
                  | a # as \<Rightarrow> take 1 (a # as))))"

definition answer_generic_query ::
  "'a lib_scheme \<Rightarrow> retriever \<Rightarrow> pystr \<Rightarrow> pystr option \<Rightarrow> int \<Rightarrow> answers" where
  "answer_generic_query L R user_input detected_intent top_k =
     generic_answer L R (normalize_text L user_input) detected_intent"

text \<open>\<^verbatim>\<open>get_weather\<close>: no lookup for an empty name.\<close>

definition get_weather :: "'a lib_scheme \<Rightarrow> pystr \<Rightarrow> weather option" where
  "get_weather L city_name = (if city_name = [] then None else fetch_weather L city_name)"

definition weather_lines :: "'a lib_scheme \<Rightarrow> pystr \<Rightarrow> weather \<Rightarrow> pystr" where
  "weather_lines L city_query w =
     S ''The weather in '' @ u_title L city_query @ S '' right now:'' @ [10] @
     [8226] @ S '' '' @ u_capitalize L (condition w) @ [10] @
     [8226] @ S '' Temperature: '' @ temperature w @ [176] @ S ''C'' @ [10] @
     [8226] @ S '' Humidity: '' @ humidity w @ S ''%'' @ [10] @
     [8226] @ S '' Wind: '' @ wind w @ S '' m/s''"

definition weather_retry :: pystr where
  "weather_retry =
     S ''I couldn'' @ [8217] @ S ''t find the weather for that city. Can you try another one?''"

definition weather_branch :: "'a lib_scheme \<Rightarrow> pystr option \<Rightarrow> city_row option \<Rightarrow> answers" where
  "weather_branch L moroccan_city global_city =
     (case moroccan_city of
        Some city_query \<Rightarrow>
          (case get_weather L city_query of
             None \<Rightarrow> [(weather_retry, 0.5)]
           | Some w \<Rightarrow> [(weather_lines L city_query w, 1.0)])
      | None \<Rightarrow>
          (case global_city of
             Some g \<Rightarrow>
               (case get_weather L (py_or (city g) (city_ascii g)) of
                  None \<Rightarrow> [(weather_retry, 0.5)]
                | Some w \<Rightarrow>
                    [(S ''I don't specialize outside Morocco, but here's the weather:'' @ [10] @
                      weather_lines L (py_or (city g) (city_ascii g)) w, 1.0)])
           | None \<Rightarrow> [(S ''Sure! Which city do you want the weather for?'', 0.5)]))"

definition distance_branch :: "'a lib_scheme \<Rightarrow> retriever \<Rightarrow> pystr \<Rightarrow> answers" where
  "distance_branch L R user_input =
     (case distance_places L (py_strip user_input) of
        Some (a, b) \<Rightarrow>
          [(get_city_distance L (find_city_coordinates L (city_detector R)) a b, 1.0)]
      | None \<Rightarrow>
          [(S ''I couldn't identify two cities in your request, can you rephrase or specify the countries?'',
            0.5)])"

definition foreign_country_message :: "'a lib_scheme \<Rightarrow> pystr \<Rightarrow> pystr" where
  "foreign_country_message L country_detected =
     S ''I'm specialized in Morocco tourism, so '' @
     (if u_lower L country_detected \<in> set [S ''usa'', S ''uk'']
      then u_upper L country_detected else u_title L country_detected) @
     S '' is outside my expertise. But if you're interested in visiting Morocco instead, I'd be happy to help!''"

text \<open>The decision tree below the weather and distance branches.\<close>

definition decision_tree ::
  "'a lib_scheme \<Rightarrow> retriever \<Rightarrow> pystr \<Rightarrow> int \<Rightarrow> pystr option \<Rightarrow> city_row option \<Rightarrow>
   pystr option \<Rightarrow> bool \<Rightarrow> pystr option \<Rightarrow> py_error + answers" where
  "decision_tree L R user_input top_k moroccan_city global_city country_detected
     morocco_mentioned detected_intent =
     (case moroccan_city of
        Some m \<Rightarrow> Inr (answer_moroccan_city_query L R user_input m top_k)
      | None \<Rightarrow>
         (case global_city of
            Some g \<Rightarrow>
              (case format_world_city_response L g of
                 Inl e \<Rightarrow> Inl e
               | Inr world_response \<Rightarrow> Inr [(world_response, 1.0)])
          | None \<Rightarrow>
              if country_detected \<noteq> None \<and> the country_detected \<noteq> [] \<and>
                 u_lower L (the country_detected) \<noteq> S ''morocco''
              then Inr [(foreign_country_message L (the country_detected), 0.3)]
              else if morocco_mentioned
              then Inr (answer_general_morocco_query L R user_input top_k)
              else Inr (answer_generic_query L R user_input detected_intent top_k)))"

text \<open>\<^verbatim>\<open>get_answer\<close> after its detections: the weather branch, the distance branch, then
  the decision tree.\<close>

definition branches ::
  "'a lib_scheme \<Rightarrow> retriever \<Rightarrow> pystr \<Rightarrow> int \<Rightarrow> pystr option \<Rightarrow> city_row option \<Rightarrow>
   pystr option \<Rightarrow> bool \<Rightarrow> pystr option \<Rightarrow> py_error + answers" where
  "branches L R user_input top_k moroccan_city global_city country_detected
     morocco_mentioned detected_intent =
     (if detected_intent = Some (S ''ask_weather'')
      then Inr (weather_branch L moroccan_city global_city)
      else if detected_intent = Some (S ''ask_distance'')
      then Inr (distance_branch L R user_input)
      else decision_tree L R user_input top_k moroccan_city global_city country_detected
             morocco_mentioned detected_intent)"

text \<open>
  \<^verbatim>\<open>get_answer\<close>. City detection can raise (an \<^verbatim>\<open>OverflowError\<close> of \<^verbatim>\<open>_get_population\<close>);
  the other detections cannot. The result of \<^verbatim>\<open>_extract_city\<close> is not used by the source
  and has no place here.
\<close>

definition get_answer :: "'a lib_scheme \<Rightarrow> retriever \<Rightarrow> pystr \<Rightarrow> int \<Rightarrow> py_error + answers" where
  "get_answer L R user_input top_k =
     (if py_strip user_input = [] then Inr [(S ''Please ask a question.'', 0.0)]
      else case detect_city L (city_detector R) user_input of
        Inl e \<Rightarrow> Inl e
      | Inr found \<Rightarrow>
          branches L R user_input top_k (fst found) (snd found)
            (detect_country L (city_detector R) user_input)
            (is_morocco_mentioned L user_input)
            (detect_intent L user_input))"

section \<open>A concrete library for worked examples\<close>

text \<open>
  The examples below run the engine on ASCII inputs, with stand-ins that agree with the
  real libraries there. \<open>seq_ratio\<close> follows \<^verbatim>\<open>difflib.SequenceMatcher\<close> without junk
  (texts shorter than 200 characters): the longest common block, the leftmost one in the
  first text and then in the second among equals, then the same to its left and to its
  right; the ratio is twice the number of matched characters over the total length.
\<close>

fun common_prefix_len :: "pystr \<Rightarrow> pystr \<Rightarrow> nat" where
  "common_prefix_len (x # xs) (y # ys) = (if x = y then Suc (common_prefix_len xs ys) else 0)"
| "common_prefix_len _ _ = 0"

fun better_in_b :: "nat \<Rightarrow> nat \<Rightarrow> nat \<times> nat \<Rightarrow> nat \<times> nat" where
  "better_in_b j k (bj, bk) = (if bk < k then (j, k) else (bj, bk))"

fun best_in_b :: "pystr \<Rightarrow> pystr \<Rightarrow> nat \<Rightarrow> nat \<times> nat \<Rightarrow> nat \<times> nat" where
  "best_in_b a [] j acc = acc"
| "best_in_b a (y # ys) j acc =
     best_in_b a ys (Suc j) (better_in_b j (common_prefix_len a (y # ys)) acc)"

fun better_in_a :: "nat \<Rightarrow> nat \<times> nat \<Rightarrow> nat \<times> nat \<times> nat \<Rightarrow> nat \<times> nat \<times> nat" where
  "better_in_a i (j, k) (bi, bj, bk) = (if bk < k then (i, j, k) else (bi, bj, bk))"

fun best_in_a :: "pystr \<Rightarrow> pystr \<Rightarrow> nat \<Rightarrow> nat \<times> nat \<times> nat \<Rightarrow> nat \<times> nat \<times> nat" where
  "best_in_a [] b i acc = acc"
| "best_in_a (x # xs) b i acc =
     best_in_a xs b (Suc i) (better_in_a i (best_in_b (x # xs) b 0 (snd acc)) acc)"

definition find_longest_match :: "pystr \<Rightarrow> pystr \<Rightarrow> nat \<times> nat \<times> nat" where
  "find_longest_match a b = best_in_a a b 0 (0, 0, 0)"

text \<open>The first argument bounds the depth of the recursion; the length of the first text
  is enough, since each level works on strictly shorter pieces of it.\<close>

fun matching_chars :: "nat \<Rightarrow> pystr \<Rightarrow> pystr \<Rightarrow> nat"
  and matching_around :: "nat \<Rightarrow> pystr \<Rightarrow> pystr \<Rightarrow> nat \<times> nat \<times> nat \<Rightarrow> nat" where
  "matching_chars 0 a b = 0"
| "matching_chars (Suc n) a b =
     (if a = [] \<or> b = [] then 0 else matching_around n a b (find_longest_match a b))"
| "matching_around n a b (i, j, k) =
     (if k = 0 then 0
      else k + matching_chars n (take i a) (take j b)
             + matching_chars n (drop (i + k) a) (drop (j + k) b))"

definition seq_ratio :: "pystr \<Rightarrow> pystr \<Rightarrow> real" where
  "seq_ratio a b =
     (if length a + length b = 0 then 1
      else 2 * real (matching_chars (length a) a b) / real (length a + length b))"

text \<open>Decimal digits, for populations and coordinates written as plain integers.\<close>

fun digits_value :: "int \<Rightarrow> pystr \<Rightarrow> int option" where
  "digits_value acc [] = Some acc"
| "digits_value acc (c # cs) =
     (if 48 \<le> c \<and> c \<le> 57 then digits_value (10 * acc + int (c - 48)) cs else None)"

definition plain_int_float :: "pystr \<Rightarrow> parsed_int" where
  "plain_int_float s =
     (if s = S ''inf'' then Infinite
      else if s = [] then BadLiteral
      else case digits_value 0 s of Some n \<Rightarrow> Parsed n | None \<Rightarrow> BadLiteral)"

definition plain_float_of :: "pystr \<Rightarrow> pyfloat option" where
  "plain_float_of s =
     (if s = S ''inf'' then Some PlusInf
      else if s = S ''nan'' then Some NaN
      else if s = [] then None
      else case digits_value 0 s of Some n \<Rightarrow> Some (Num (real_of_int n)) | None \<Rightarrow> None)"

text \<open>
  Floating-point arithmetic without rounding: every operation returns the exact real
  result on numbers, and treats infinities and NaN as IEEE 754 does. \<^verbatim>\<open>math.sin\<close> and
  \<^verbatim>\<open>math.cos\<close> raise on an infinity, \<^verbatim>\<open>math.sqrt\<close> on a negative number and on minus
  infinity.
\<close>

fun exact_add :: "pyfloat \<Rightarrow> pyfloat \<Rightarrow> pyfloat" where
  "exact_add (Num x) (Num y) = Num (x + y)"
| "exact_add NaN b = NaN"
| "exact_add a NaN = NaN"
| "exact_add PlusInf MinusInf = NaN"
| "exact_add MinusInf PlusInf = NaN"
| "exact_add PlusInf b = PlusInf"
| "exact_add MinusInf b = MinusInf"
| "exact_add (Num x) b = b"

definition exact_sub :: "pyfloat \<Rightarrow> pyfloat \<Rightarrow> pyfloat" where
  "exact_sub a b = exact_add a (f_neg b)"

fun exact_mul :: "pyfloat \<Rightarrow> pyfloat \<Rightarrow> pyfloat" where
  "exact_mul (Num x) (Num y) = Num (x * y)"
| "exact_mul NaN b = NaN"
| "exact_mul a NaN = NaN"
| "exact_mul (Num x) b = (if x = 0 then NaN else if 0 < x then b else f_neg b)"
| "exact_mul a (Num y) = (if y = 0 then NaN else if 0 < y then a else f_neg a)"
| "exact_mul a b = (if a = b then PlusInf else MinusInf)"

text \<open>Division by a number that is not zero (the source divides by 2 only).\<close>

fun exact_div :: "pyfloat \<Rightarrow> pyfloat \<Rightarrow> pyfloat" where
  "exact_div (Num x) (Num y) = Num (x / y)"
| "exact_div NaN b = NaN"
| "exact_div a NaN = NaN"
| "exact_div (Num x) b = Num 0"
| "exact_div a (Num y) = (if 0 \<le> y then a else f_neg a)"
| "exact_div a b = NaN"

definition exact_pow2 :: "pyfloat \<Rightarrow> pyfloat option" where
  "exact_pow2 a = (case a of Num x \<Rightarrow> Some (Num (x * x)) | NaN \<Rightarrow> Some NaN | _ \<Rightarrow> Some PlusInf)"

definition exact_radians :: "pyfloat \<Rightarrow> pyfloat" where
  "exact_radians a = (case a of Num x \<Rightarrow> Num (x * pi / 180) | _ \<Rightarrow> a)"

definition exact_sin :: "pyfloat \<Rightarrow> pyfloat option" where
  "exact_sin a = (case a of Num x \<Rightarrow> Some (Num (sin x)) | NaN \<Rightarrow> Some NaN | _ \<Rightarrow> None)"

definition exact_cos :: "pyfloat \<Rightarrow> pyfloat option" where
  "exact_cos a = (case a of Num x \<Rightarrow> Some (Num (cos x)) | NaN \<Rightarrow> Some NaN | _ \<Rightarrow> None)"

definition exact_sqrt :: "pyfloat \<Rightarrow> pyfloat option" where
  "exact_sqrt a =
     (case a of
        Num x \<Rightarrow> if x < 0 then None else Some (Num (sqrt x))
      | PlusInf \<Rightarrow> Some PlusInf
      | MinusInf \<Rightarrow> None
      | NaN \<Rightarrow> Some NaN)"

text \<open>\<^verbatim>\<open>math.atan2\<close> on numbers; the result for an infinite argument is not needed.\<close>

definition real_atan2 :: "real \<Rightarrow> real \<Rightarrow> real" where
  "real_atan2 y x =
     (if 0 < x then arctan (y / x)
      else if x < 0 \<and> 0 \<le> y then arctan (y / x) + pi
      else if x < 0 then arctan (y / x) - pi
      else if 0 < y then pi / 2
      else if y < 0 then - pi / 2
      else 0)"

definition exact_atan2 :: "pyfloat \<Rightarrow> pyfloat \<Rightarrow> pyfloat" where
  "exact_atan2 a b = (case (a, b) of (Num y, Num x) \<Rightarrow> Num (real_atan2 y x) | _ \<Rightarrow> NaN)"

text \<open>The transcendental functions are stated over the real numbers and are not evaluated.\<close>

declare exact_radians_def [code del]
declare exact_sin_def [code del]
declare exact_cos_def [code del]
declare exact_sqrt_def [code del]
declare real_atan2_def [code del]
declare exact_atan2_def [code del]

text \<open>
  \<^verbatim>\<open>f"{dist:,.1f}"\<close> without the thousands separator: the distance rounded to one
  decimal (a half is rounded up).
\<close>

fun dec_digits :: "nat \<Rightarrow> nat \<Rightarrow> pystr" where
  "dec_digits 0 n = []"
| "dec_digits (Suc fuel) n =
     (if n < 10 then [48 + n] else dec_digits fuel (n div 10) @ [48 + n mod 10])"

definition decimal :: "nat \<Rightarrow> pystr" where
  "decimal n = dec_digits (Suc n) n"

definition plain_format_km :: "pyfloat \<Rightarrow> pystr" where
  "plain_format_km d =
     (case d of
        Num x \<Rightarrow>
          (if x < 0 then S ''-'' else []) @
          decimal (nat \<lfloor>\<bar>x\<bar> * 10 + 1 / 2\<rfloor> div 10) @ S ''.'' @
          decimal (nat \<lfloor>\<bar>x\<bar> * 10 + 1 / 2\<rfloor> mod 10)
      | PlusInf \<Rightarrow> S ''inf''
      | MinusInf \<Rightarrow> S ''-inf''
      | NaN \<Rightarrow> S ''nan'')"

definition ascii_lower :: "pystr \<Rightarrow> pystr" where
  "ascii_lower s = map (\<lambda>c. if 65 \<le> c \<and> c \<le> 90 then c + 32 else c) s"

definition ascii_upper :: "pystr \<Rightarrow> pystr" where
  "ascii_upper s = map (\<lambda>c. if 97 \<le> c \<and> c \<le> 122 then c - 32 else c) s"

text \<open>\<^verbatim>\<open>str.title\<close> and \<^verbatim>\<open>str.capitalize\<close> on ASCII: a letter is upper case after a
  character that is no letter (for \<open>capitalize\<close>: at the start only), lower case otherwise.\<close>

definition ascii_letter :: "nat \<Rightarrow> bool" where
  "ascii_letter c \<longleftrightarrow> (65 \<le> c \<and> c \<le> 90) \<or> (97 \<le> c \<and> c \<le> 122)"

fun title_scan :: "bool \<Rightarrow> pystr \<Rightarrow> pystr" where
  "title_scan in_word [] = []"
| "title_scan in_word (c # cs) =
     (if in_word then ascii_lower [c] else ascii_upper [c]) @ title_scan (ascii_letter c) cs"

definition ascii_capitalize :: "pystr \<Rightarrow> pystr" where
  "ascii_capitalize s = (case s of [] \<Rightarrow> [] | c # cs \<Rightarrow> ascii_upper [c] @ ascii_lower cs)"

text \<open>
  ASCII case mapping, NFKD as the identity (right on ASCII), no lemma forms, the ratio
  above, integer literals, exact arithmetic, no weather service, the first element for a
  random choice, and no place found by the extraction cascade. The TF-IDF similarity is a
  parameter of the library: it depends on the vocabulary fitted to the corpus.
\<close>

definition plain_lib :: "(pystr \<Rightarrow> nat \<Rightarrow> real) \<Rightarrow> lib" where
  "plain_lib cosine =
     \<lparr> u_lower = ascii_lower,
       u_nfkd = (\<lambda>s. s),
       u_alnum = (\<lambda>c. False),
       u_title = title_scan False,
       u_capitalize = ascii_capitalize,
       u_upper = ascii_upper,
       lemmatize = (\<lambda>w. w),
       ratio = seq_ratio,
       int_float = plain_int_float,
       float_of = plain_float_of,
       format_km = plain_format_km,
       format_thousands = (\<lambda>n. S ''#''),
       format_2f = (\<lambda>x. S ''#''),
       f_add = exact_add,
       f_sub = exact_sub,
       f_mul = exact_mul,
       f_div = exact_div,
       f_pow2 = exact_pow2,
       m_radians = exact_radians,
       m_sin = exact_sin,
       m_cos = exact_cos,
       m_sqrt = exact_sqrt,
       m_atan2 = exact_atan2,
       tfidf = cosine,
       fetch_weather = (\<lambda>c. None),
       random_choice = (\<lambda>n. 0),
       distance_places = (\<lambda>t. None) \<rparr>"

section \<open>Notions used in the statements\<close>

text \<open>For the normalizer: \<^verbatim>\<open>rstrip\<close> written by recursion from the left, and the shape of a
  text after the whitespace runs are collapsed.\<close>

fun drop_trailing :: "('a \<Rightarrow> bool) \<Rightarrow> 'a list \<Rightarrow> 'a list" where
  "drop_trailing P [] = []"
| "drop_trailing P (x # xs) = (let r = drop_trailing P xs in if r = [] \<and> P x then [] else x # r)"

fun collapsed :: "pystr \<Rightarrow> bool" where
  "collapsed [] = True"
| "collapsed (c # cs) =
     ((plain_char c \<or> (c = 32 \<and> (cs = [] \<or> plain_char (hd cs)))) \<and> collapsed cs)"

text \<open>
  For the gazetteer loader: the population the loop compares (0 for what the inner
  handler catches), the rows of a key, the rows whose population converts without an
  \<^verbatim>\<open>OverflowError\<close>, the row kept when later rows replace the stored one only if strictly
  larger, and the same for the stored dictionary.
\<close>

definition row_pop :: "'a lib_scheme \<Rightarrow> city_row \<Rightarrow> int" where
  "row_pop L r = (case caught_population L (population r) of Some n \<Rightarrow> n | None \<Rightarrow> 0)"

definition keyed :: "'a lib_scheme \<Rightarrow> pystr \<Rightarrow> city_row list \<Rightarrow> city_row list" where
  "keyed L k rows = filter (\<lambda>r. py_strip (city r) \<noteq> [] \<and> city_key L r = k) rows"

definition finite_pops :: "'a lib_scheme \<Rightarrow> city_row list \<Rightarrow> bool" where
  "finite_pops L rows = list_all (\<lambda>r. caught_population L (population r) \<noteq> None) rows"

fun keep_best :: "'a lib_scheme \<Rightarrow> city_row \<Rightarrow> city_row list \<Rightarrow> city_row" where
  "keep_best L best [] = best"
| "keep_best L best (r # rs) =
     keep_best L (if row_pop L r > row_pop L best then stored_row r else best) rs"

definition stored_finite :: "'a lib_scheme \<Rightarrow> (pystr \<times> city_row) list \<Rightarrow> bool" where
  "stored_finite L cities \<longleftrightarrow>
     (\<forall>k v. map_of cities k = Some v \<longrightarrow> caught_population L (population v) \<noteq> None)"

definition kept :: "'a lib_scheme \<Rightarrow> city_row option \<Rightarrow> city_row list \<Rightarrow> city_row option" where
  "kept L stored ms =
     (case stored of
        None \<Rightarrow> (case ms of [] \<Rightarrow> None | r # rs \<Rightarrow> Some (keep_best L (stored_row r) rs))
      | Some old \<Rightarrow> Some (keep_best L old ms))"

text \<open>A gazetteer row for the examples.\<close>

definition demo_row :: "string \<Rightarrow> string \<Rightarrow> string \<Rightarrow> city_row" where
  "demo_row name country_name pop =
     \<lparr>city = S name, city_ascii = S name, country = S country_name, lat = S ''34'',
      lng = S ''6'', admin_name = [], capital = [], population = S pop,
      iso2 = [], iso3 = []\<rparr>"

text \<open>For the distance replies: the disclaimer that opens a reply when one of the two
  places is not Moroccan; a small gazetteer, loaded from three rows; and a resolver that
  is not the engine's, with one answer of low confidence.\<close>

definition disclaimer :: "'a lib_scheme \<Rightarrow> pystr \<Rightarrow> pystr \<Rightarrow> pystr \<Rightarrow> pystr \<Rightarrow> pystr" where
  "disclaimer L name_a country_a name_b country_b =
     (if \<not> (is_morocco_place L name_a country_a \<and> is_morocco_place L name_b country_b)
      then S ''My main specialty is Morocco, but here is the information you requested: ''
      else [])"

definition demo_gazetteer :: detector where
  "demo_gazetteer = load_global_cities (plain_lib (\<lambda>q i. 0))
     [demo_row ''Rabat'' ''Morocco'' ''572717'', demo_row ''Lisbon'' ''Portugal'' ''506654'',
      demo_row ''Rabat'' ''Malta'' ''11497'']"

definition demo_resolver :: "pystr \<Rightarrow> place option" where
  "demo_resolver c =
     (if c = S ''Fez'' then Some (S ''Fes'', Num 34, Num (-5), S ''Morocco'', 0.7)
      else Some (S ''Rabat'', Num 34, Num (-7), S ''Morocco'', 1))"

text \<open>
  Two places on the equator, a quarter of the way round the globe from each other, and
  one with a latitude that is no number.
\<close>

definition demo_point :: "string \<Rightarrow> string \<Rightarrow> string \<Rightarrow> city_row" where
  "demo_point name la lo = (demo_row name ''Nowhere'' ''100000'')\<lparr>lat := S la, lng := S lo\<rparr>"

definition equator_gazetteer :: detector where
  "equator_gazetteer = load_global_cities (plain_lib (\<lambda>q i. 0))
     [demo_point ''Alpha'' ''0'' ''0'', demo_point ''Omega'' ''0'' ''90'',
      demo_point ''Limbo'' ''inf'' ''0'']"

text \<open>
  The facts of floating-point arithmetic that the distance properties rest on. They hold
  for IEEE 754 doubles with the C library behind \<^verbatim>\<open>math\<close>: subtraction and halving are
  odd (rounding to nearest is symmetric), the sine is odd and raises for both infinities,
  squaring is even, multiplication commutes.
\<close>

definition float_symmetric :: "'a lib_scheme \<Rightarrow> bool" where
  "float_symmetric L \<longleftrightarrow>
     (\<forall>a b. f_sub L a b = f_neg (f_sub L b a)) \<and>
     (\<forall>a. f_div L (f_neg a) (Num 2) = f_neg (f_div L a (Num 2))) \<and>
     (\<forall>a. m_sin L (f_neg a) = map_option f_neg (m_sin L a)) \<and>
     (\<forall>a. f_pow2 L (f_neg a) = f_pow2 L a) \<and>
     (\<forall>a b. f_mul L a b = f_mul L b a)"

text \<open>
  And the results that are exact: the radians of a number are a number, \<open>x - x\<close> is 0,
  the cosine of a number is a number of magnitude at most 1, the product of two such
  numbers is a number, a number times 0 is 0, and \<open>0 / 2 = 0\<close>, \<open>sin 0 = 0\<close>, \<open>0 ** 2 = 0\<close>,
  \<open>0 + 0 = 0\<close>, \<open>sqrt 0 = 0\<close>, \<open>1 - 0 = 1\<close>, \<open>sqrt 1 = 1\<close>, \<open>atan2 0 1 = 0\<close>.
\<close>

fun is_num :: "pyfloat \<Rightarrow> bool" where
  "is_num (Num x) = True"
| "is_num a = False"

definition unit_num :: "pyfloat option \<Rightarrow> bool" where
  "unit_num r = (case r of Some (Num c) \<Rightarrow> \<bar>c\<bar> \<le> 1 | _ \<Rightarrow> False)"

definition float_exact_at_zero :: "'a lib_scheme \<Rightarrow> bool" where
  "float_exact_at_zero L \<longleftrightarrow>
     (\<forall>x. is_num (m_radians L (Num x))) \<and>
     (\<forall>x. f_sub L (Num x) (Num x) = Num 0) \<and>
     (\<forall>x. unit_num (m_cos L (Num x))) \<and>
     (\<forall>x y. \<bar>x\<bar> \<le> 1 \<and> \<bar>y\<bar> \<le> 1 \<longrightarrow> is_num (f_mul L (Num x) (Num y))) \<and>
     (\<forall>x. f_mul L (Num x) (Num 0) = Num 0) \<and>
     f_div L (Num 0) (Num 2) = Num 0 \<and>
     m_sin L (Num 0) = Some (Num 0) \<and>
     f_pow2 L (Num 0) = Some (Num 0) \<and>
     f_add L (Num 0) (Num 0) = Num 0 \<and>
     m_sqrt L (Num 0) = Some (Num 0) \<and>
     f_sub L (Num 1) (Num 0) = Num 1 \<and>
     m_sqrt L (Num 1) = Some (Num 1) \<and>
     m_atan2 L (Num 0) (Num 1) = Num 0"

text \<open>For the intent classifier: the expanded query of \<^verbatim>\<open>_detect_intent\<close>, and its three
  tests as predicates of the user input and a trigger.\<close>

definition expanded_query :: "'a lib_scheme \<Rightarrow> pystr \<Rightarrow> pystr" where
  "expanded_query L user_input =
     py_replace (S '' cn '') (S '' can '')
       (py_replace (S '' n '') (S '' in '')
         (py_replace (S '' 2 '') (S '' to '') (normalize_text L user_input)))"

definition troll_trigger_hits :: "'a lib_scheme \<Rightarrow> pystr \<Rightarrow> pystr \<Rightarrow> bool" where
  "troll_trigger_hits L user_input kw =
     troll_hit L (normalize_text L user_input)
       (lemmatize_text L (normalize_text L user_input)) kw"

definition trigger_hits :: "'a lib_scheme \<Rightarrow> pystr \<Rightarrow> pystr \<Rightarrow> bool" where
  "trigger_hits L user_input kw =
     word_hit L (normalize_text L user_input)
       (lemmatize_text L (normalize_text L user_input)) kw"

definition late_trigger_hits :: "'a lib_scheme \<Rightarrow> pystr \<Rightarrow> pystr \<Rightarrow> bool" where
  "late_trigger_hits L user_input kw \<longleftrightarrow>
     trigger_hits L user_input kw \<or>
     word_hit L (expanded_query L user_input)
       (lemmatize_text L (expanded_query L user_input)) kw"

text \<open>
  The joke/troll test as the specification words it (a whole-word match of the trigger,
  or of its lemma form, or a similarity above 0.8), to compare with \<open>troll_hit\<close>, which is
  the test of the source.
\<close>

definition spec_troll_hit :: "'a lib_scheme \<Rightarrow> pystr \<Rightarrow> pystr \<Rightarrow> pystr \<Rightarrow> bool" where
  "spec_troll_hit L query query_lem kw =
     (let kw_norm = normalize_text L kw; kw_lem = lemmatize_text L kw_norm
      in re_search_word L kw_norm query \<or> re_search_word L kw_lem query_lem \<or>
         fuzzy_similarity L query kw_norm > 0.8)"

text \<open>Three one-entry corpora over an empty gazetteer, for the examples of the engine.\<close>

definition empty_gazetteer :: detector where
  "empty_gazetteer = \<lparr>global_cities = [], countries = []\<rparr>"

definition rain_entry :: qa_entry where
  "rain_entry =
     \<lparr>question = S ''Rain?'', assistant = S ''It rarely rains in summer.'',
      entry_city = [], intent = S ''ask_weather''\<rparr>"

definition rain_engine :: retriever where
  "rain_engine = \<lparr>qa_list = [rain_entry], city_detector = empty_gazetteer\<rparr>"

definition hello_entry :: qa_entry where
  "hello_entry =
     \<lparr>question = S ''Hello!'', assistant = S ''Hello! Ask me about Morocco.'',
      entry_city = [], intent = S ''greeting''\<rparr>"

definition hello_engine :: retriever where
  "hello_engine = \<lparr>qa_list = [hello_entry], city_detector = empty_gazetteer\<rparr>"

definition morocco_entry :: qa_entry where
  "morocco_entry =
     \<lparr>question = S ''Morocco'', assistant = S ''Morocco lies in North Africa.'',
      entry_city = [], intent = S ''general_morocco''\<rparr>"

definition morocco_engine :: retriever where
  "morocco_engine = \<lparr>qa_list = [morocco_entry], city_detector = empty_gazetteer\<rparr>"

subsection \<open>Branches of the decision tree and score bounds\<close>

definition names_foreign_country :: "'a lib_scheme \<Rightarrow> detector \<Rightarrow> pystr \<Rightarrow> bool" where
  "names_foreign_country L D user_input =
     (case detect_country L D user_input of
        None \<Rightarrow> False
      | Some c \<Rightarrow> c \<noteq> [] \<and> u_lower L c \<noteq> S ''morocco'')"

definition special_intent :: "'a lib_scheme \<Rightarrow> pystr \<Rightarrow> bool" where
  "special_intent L user_input \<longleftrightarrow>
     detect_intent L user_input = Some (S ''ask_weather'') \<or>
     detect_intent L user_input = Some (S ''ask_distance'')"

definition corpus_branch :: "'a lib_scheme \<Rightarrow> retriever \<Rightarrow> pystr \<Rightarrow> bool" where
  "corpus_branch L R user_input \<longleftrightarrow>
     py_strip user_input \<noteq> [] \<and> \<not> special_intent L user_input \<and>
     (case detect_city L (city_detector R) user_input of
        Inl e \<Rightarrow> False
      | Inr found \<Rightarrow>
          fst found \<noteq> None \<or>
          (snd found = None \<and> \<not> names_foreign_country L (city_detector R) user_input))"

definition general_morocco_branch :: "'a lib_scheme \<Rightarrow> retriever \<Rightarrow> pystr \<Rightarrow> bool" where
  "general_morocco_branch L R user_input \<longleftrightarrow>
     py_strip user_input \<noteq> [] \<and> \<not> special_intent L user_input \<and>
     detect_city L (city_detector R) user_input = Inr (None, None) \<and>
     \<not> names_foreign_country L (city_detector R) user_input \<and>
     is_morocco_mentioned L user_input"

definition scores_bounded :: "'a lib_scheme \<Rightarrow> retriever \<Rightarrow> pystr \<Rightarrow> bool" where
  "scores_bounded L R user_input =
     list_all
       (\<lambda>i. 0 \<le> tfidf L (normalize_text L user_input) i \<and>
            tfidf L (normalize_text L user_input) i \<le> 1 \<and>
            0 \<le> fuzzy_similarity L (normalize_text L user_input)
                  (norm_question L (qa_list R ! i)) \<and>
            fuzzy_similarity L (normalize_text L user_input)
              (norm_question L (qa_list R ! i)) \<le> 1)
       [0..<length (qa_list R)]"

definition descending :: "answers \<Rightarrow> bool" where
  "descending xs = sorted_wrt (\<lambda>a b. snd b \<le> snd a) xs"

definition scores_within :: "real \<Rightarrow> answers \<Rightarrow> bool" where
  "scores_within hi xs = list_all (\<lambda>a. 0 \<le> snd a \<and> snd a \<le> hi) xs"

definition good :: "real \<Rightarrow> answers \<Rightarrow> bool" where
  "good hi xs \<longleftrightarrow> descending xs \<and> scores_within hi xs"

section \<open>Properties\<close>

subsection \<open>Text normalizer\<close>

lemma rev_dropWhile_rev: "rev (dropWhile P (rev xs)) = drop_trailing P xs"
proof (induction xs)
  case Nil
  then show ?case by simp
next
  case (Cons x xs)
  then have IH: "dropWhile P (rev xs) = rev (drop_trailing P xs)"
    by (simp add: rev_swap)
  show ?case
  proof (cases "\<forall>y \<in> set xs. P y")
    case True
    then have "dropWhile P (rev xs) = []" by simp
    with IH True show ?thesis by (simp add: dropWhile_append)
  next
    case False
    then have "dropWhile P (rev xs) \<noteq> []" by auto
    with IH False show ?thesis by (auto simp: dropWhile_append Let_def)
  qed
qed

lemma plain_not_space: "plain_char c \<Longrightarrow> \<not> is_space c"
  by (auto simp: plain_char_def is_space_def)

lemma space_32: "is_space 32"
  by (simp add: is_space_def)

lemma single_spaced_hd: "single_spaced s \<Longrightarrow> s \<noteq> [] \<Longrightarrow> plain_char (hd s)"
  by (induction s rule: single_spaced.induct) auto

lemma single_spaced_plain: "single_spaced s \<Longrightarrow> plain_text s"
  by (induction s rule: single_spaced.induct) (auto simp: plain_text_def split: if_splits)

lemma dropWhile_single_spaced: "single_spaced s \<Longrightarrow> dropWhile is_space s = s"
  using single_spaced_hd [of s] plain_not_space [of "hd s"] by (cases s) auto

lemma collapse_single_spaced: "single_spaced s \<Longrightarrow> collapse_ws s = s"
proof (induction s rule: single_spaced.induct)
  case (3 c d cs)
  then show ?case
    by (auto simp: plain_not_space space_32 dropWhile_single_spaced split: if_splits)
qed (auto simp: plain_not_space)

lemma drop_trailing_single_spaced: "single_spaced s \<Longrightarrow> drop_trailing is_space s = s"
proof (induction s rule: single_spaced.induct)
  case (3 c d cs)
  then show ?case
    by (auto simp: plain_not_space space_32 Let_def split: if_splits)
qed (auto simp: plain_not_space)

lemma strip_single_spaced: "single_spaced s \<Longrightarrow> py_strip s = s"
  by (simp add: py_strip_def rev_dropWhile_rev dropWhile_single_spaced
      drop_trailing_single_spaced)

lemma sub_possessive_no_apostrophe: "39 \<notin> set s \<Longrightarrow> sub_possessive U s = s"
  by (induction U s rule: sub_possessive.induct) auto

lemma plain_text_facts:
  assumes "plain_text s"
  shows "39 \<notin> set s" and "filter keep_char s = s" and "ascii_ignore s = s"
  using assms
  by (auto simp: plain_text_def plain_char_def keep_char_def ascii_ignore_def is_space_def
      intro!: filter_True)

lemma keep_not_space_plain: "keep_char c \<Longrightarrow> \<not> is_space c \<Longrightarrow> plain_char c"
  by (auto simp: keep_char_def plain_char_def)

lemma collapsed_collapse_ws:
  "\<forall>c \<in> set t. keep_char c \<Longrightarrow> collapsed (collapse_ws t)"
proof (induction t rule: collapse_ws.induct)
  case 1
  then show ?case by simp
next
  case (2 c cs)
  show ?case
  proof (cases "is_space c")
    case True
    let ?r = "dropWhile is_space cs"
    have sub: "\<forall>c \<in> set ?r. keep_char c"
      using "2.prems" by (auto dest: set_dropWhileD)
    have IH: "collapsed (collapse_ws ?r)"
      using "2.IH"(1) [OF True sub] .
    have "collapse_ws ?r = [] \<or> plain_char (hd (collapse_ws ?r))"
    proof (cases ?r)
      case Nil
      then show ?thesis by (metis collapse_ws.simps(1))
    next
      case (Cons d ds)
      then have "\<not> is_space d" by (metis hd_dropWhile list.sel(1) list.simps(3))
      moreover have "keep_char d" using sub Cons by simp
      ultimately show ?thesis using Cons by (simp add: keep_not_space_plain)
    qed
    with IH True show ?thesis by simp
  next
    case False
    then have "plain_char c" using "2.prems" by (simp add: keep_not_space_plain)
    moreover have "collapsed (collapse_ws cs)"
      using "2.IH"(2) [OF False] "2.prems" by simp
    ultimately show ?thesis using False by simp
  qed
qed

lemma collapsed_dropWhile:
  "collapsed t \<Longrightarrow> collapsed (dropWhile is_space t) \<and>
     (dropWhile is_space t = [] \<or> plain_char (hd (dropWhile is_space t)))"
proof (induction t)
  case Nil
  then show ?case by simp
next
  case (Cons c cs)
  then show ?case
    by (cases cs) (auto simp: plain_not_space space_32)
qed

lemma single_spaced_drop_trailing:
  "collapsed t \<Longrightarrow> t = [] \<or> plain_char (hd t) \<Longrightarrow> single_spaced (drop_trailing is_space t)"
proof (induction t rule: induct_list012)
  case 1
  then show ?case by simp
next
  case (2 x)
  then show ?case by (simp add: plain_not_space)
next
  case (3 x y zs)
  show ?case
  proof (cases "y = 32")
    case True
    have zs: "collapsed zs" "zs = [] \<or> plain_char (hd zs)"
      using "3.prems" True by (auto simp: plain_char_def)
    then have "single_spaced (drop_trailing is_space zs)" using "3.IH"(1) by simp
    then show ?thesis using "3.prems" True
      by (auto simp: Let_def space_32 plain_not_space)
  next
    case False
    then have y: "plain_char y" using "3.prems" by auto
    have "single_spaced (drop_trailing is_space (y # zs))"
      using "3.IH"(2) "3.prems" y by simp
    moreover have "drop_trailing is_space (y # zs) = y # drop_trailing is_space zs"
      using y by (simp add: Let_def plain_not_space)
    ultimately show ?thesis using "3.prems" False y
      by (simp add: Let_def plain_not_space)
  qed
qed

lemma single_spaced_strip_collapse:
  "single_spaced (py_strip (collapse_ws (filter keep_char t)))"
proof -
  have "collapsed (collapse_ws (filter keep_char t))"
    by (rule collapsed_collapse_ws) simp
  from collapsed_dropWhile [OF this] show ?thesis
    by (simp add: py_strip_def rev_dropWhile_rev single_spaced_drop_trailing)
qed

lemma single_spaced_normalize_text: "single_spaced (normalize_text U x)"
  by (simp add: normalize_text_def single_spaced_strip_collapse)

lemma normalize_text_fixpoint:
  assumes "unicode_stable U" and "single_spaced s"
  shows "normalize_text U s = s"
proof -
  have p: "plain_text s" using assms(2) by (rule single_spaced_plain)
  then have "u_lower U s = s" "u_nfkd U s = s"
    using assms(1) by (simp_all add: unicode_stable_def)
  then show ?thesis
    using p assms(2)
    by (simp add: normalize_text_def plain_text_facts sub_possessive_no_apostrophe
        collapse_single_spaced strip_single_spaced)
qed

lemma ascii_lower_plain: "plain_text s \<Longrightarrow> ascii_lower s = s"
  by (auto simp: ascii_lower_def plain_text_def plain_char_def intro!: map_idI)

lemma plain_lib_stable: "unicode_stable (plain_lib t)"
  by (simp add: unicode_stable_def plain_lib_def ascii_lower_plain)

text \<open>
  C5. \<^verbatim>\<open>normalize_text\<close> is total and idempotent. The model has no error value because
  the source has no place where it raises (a value that is no string gives the empty
  string); for every sequence of code points, emoji and punctuation included, the result
  is a text of lower-case ASCII letters and digits in words separated by single spaces,
  and normalizing it again changes nothing. The hypothesis is a fact of the Unicode
  database about the library functions: \<^verbatim>\<open>str.lower\<close> and NFKD leave such texts as they
  are.
\<close>

theorem normalize_text_total_idempotent:
  assumes "unicode_stable U"
  shows "single_spaced (normalize_text U x) \<and>
         normalize_text U (normalize_text U x) = normalize_text U x"
  using assms single_spaced_normalize_text [of U x]
    normalize_text_fixpoint [of U "normalize_text U x"]
  by blast

theorem normalize_text_total_idempotent_witness:
  "unicode_stable (plain_lib (\<lambda>q i. 0)) \<and>
   normalize_text (plain_lib (\<lambda>q i. 0)) (S ''  Rabat's  BEST beaches?! '') =
     S ''rabat best beaches'' \<and>
   normalize_text (plain_lib (\<lambda>q i. 0))
     (normalize_text (plain_lib (\<lambda>q i. 0)) (S ''  Rabat's  BEST beaches?! '')) =
   normalize_text (plain_lib (\<lambda>q i. 0)) (S ''  Rabat's  BEST beaches?! '')"
proof -
  have v: "normalize_text (plain_lib (\<lambda>q i. 0)) (S ''  Rabat's  BEST beaches?! '') =
      S ''rabat best beaches''"
    by code_simp
  show ?thesis
    using normalize_text_total_idempotent
        [OF plain_lib_stable, of "\<lambda>q i. 0" "S ''  Rabat's  BEST beaches?! ''"]
      plain_lib_stable [of "\<lambda>q i. 0"] v
    by blast
qed

subsection \<open>Answer ranking engine\<close>

lemma strip_all_space:
  assumes "list_all is_space s"
  shows "py_strip s = []"
proof -
  have d: "dropWhile is_space s = []" using assms by (simp add: list_all_iff)
  show ?thesis unfolding py_strip_def d by simp
qed

text \<open>
  C10. For an input that is empty or consists of whitespace only, \<^verbatim>\<open>get_answer\<close> returns
  (and does not raise) the list with the one pair of the prompt
  \<^verbatim>\<open>Please ask a question.\<close> and the score 0.0, whatever the corpus, the gazetteer, the
  libraries and \<open>top_k\<close> are.
\<close>

theorem get_answer_blank_input:
  assumes "list_all is_space user_input"
  shows "get_answer L R user_input top_k = Inr [(S ''Please ask a question.'', 0.0)]"
  using assms by (simp add: get_answer_def strip_all_space)

theorem get_answer_blank_input_witness:
  "list_all is_space [32, 9, 10, 160] \<and>
   get_answer (plain_lib (\<lambda>q i. 0))
     \<lparr>qa_list = [], city_detector = \<lparr>global_cities = [], countries = []\<rparr>\<rparr>
     [32, 9, 10, 160] 1 = Inr [(S ''Please ask a question.'', 0.0)]"
proof -
  have h: "list_all is_space [32, 9, 10, 160]"
    by (simp add: is_space_def)
  show ?thesis
    using h get_answer_blank_input [OF h] by blast
qed


subsection \<open>Gazetteer loader\<close>

lemma population_stored_row [simp]: "population (stored_row r) = population r"
  by (simp add: stored_row_def)

lemma row_pop_stored_row [simp]: "row_pop L (stored_row r) = row_pop L r"
  by (simp add: row_pop_def)

lemma load_row_skip:
  "py_strip (city r) = [] \<Longrightarrow> load_row L r cities = Some cities"
  by (simp add: load_row_def)

lemma load_row_new:
  assumes "py_strip (city r) \<noteq> []" "caught_population L (population r) \<noteq> None"
    "map_of cities (city_key L r) = None"
  shows "load_row L r cities = Some (cities @ [(city_key L r, stored_row r)])"
  using assms by (auto simp: load_row_def split: option.splits)

lemma load_row_old:
  assumes "py_strip (city r) \<noteq> []" "caught_population L (population r) \<noteq> None"
    "map_of cities (city_key L r) = Some old" "caught_population L (population old) \<noteq> None"
  shows "load_row L r cities =
     Some (if row_pop L r > row_pop L old
           then AList.update (city_key L r) (stored_row r) cities else cities)"
  using assms by (auto simp: load_row_def row_pop_def split: option.splits)

lemma keyed_Cons:
  "keyed L k (r # rows) =
     (if py_strip (city r) \<noteq> [] \<and> city_key L r = k then r # keyed L k rows
      else keyed L k rows)"
  by (simp add: keyed_def)

lemma keyed_Nil: "keyed L k [] = []"
  by (simp add: keyed_def)

lemma stored_finite_append:
  assumes "stored_finite L cities" "caught_population L (population r) \<noteq> None"
  shows "stored_finite L (cities @ [(k, stored_row r)])"
  unfolding stored_finite_def
proof (intro allI impI)
  fix k' v assume "map_of (cities @ [(k, stored_row r)]) k' = Some v"
  then have "map_of cities k' = Some v \<or> v = stored_row r"
    by (auto simp: map_add_def split: option.splits if_splits)
  then show "caught_population L (population v) \<noteq> None"
    using assms by (auto simp: stored_finite_def)
qed

lemma stored_finite_update:
  assumes "stored_finite L cities" "caught_population L (population r) \<noteq> None"
  shows "stored_finite L (AList.update k (stored_row r) cities)"
  unfolding stored_finite_def
proof (intro allI impI)
  fix k' v assume "map_of (AList.update k (stored_row r) cities) k' = Some v"
  then have "map_of cities k' = Some v \<or> v = stored_row r"
    by (auto simp: update_conv' split: if_splits)
  then show "caught_population L (population v) \<noteq> None"
    using assms by (auto simp: stored_finite_def)
qed

lemma map_of_snoc:
  "map_of (cities @ [(k, v)]) k' =
     (case map_of cities k' of None \<Rightarrow> (if k' = k then Some v else None) | Some x \<Rightarrow> Some x)"
  by (simp add: map_add_def split: option.splits)

lemma load_rows_map_of:
  assumes "finite_pops L rows" "stored_finite L cities"
  shows "map_of (global_cities (load_rows L rows cities cs)) k =
     kept L (map_of cities k) (keyed L k rows)"
  using assms
proof (induction rows arbitrary: cities cs)
  case Nil
  then show ?case by (simp add: keyed_Nil kept_def split: option.splits)
next
  case (Cons r rows)
  from Cons.prems have fin_r: "caught_population L (population r) \<noteq> None"
    and fin_rows: "finite_pops L rows"
    by (simp_all add: finite_pops_def)
  show ?case
  proof (cases "py_strip (city r) = []")
    case True
    have step: "load_rows L (r # rows) cities cs = load_rows L rows cities (add_country L r cs)"
      using True by (simp add: load_row_skip)
    have kc: "keyed L k (r # rows) = keyed L k rows"
      using True by (simp add: keyed_Cons)
    show ?thesis unfolding step kc by (rule Cons.IH [OF fin_rows Cons.prems(2)])
  next
    case ne: False
    show ?thesis
    proof (cases "map_of cities (city_key L r)")
      case None
      let ?c = "cities @ [(city_key L r, stored_row r)]"
      have step: "load_rows L (r # rows) cities cs = load_rows L rows ?c (add_country L r cs)"
        using load_row_new [OF ne fin_r None] by simp
      have sf: "stored_finite L ?c"
        using Cons.prems(2) fin_r by (rule stored_finite_append)
      have lhs: "map_of (global_cities (load_rows L (r # rows) cities cs)) k =
          kept L (map_of ?c k) (keyed L k rows)"
        unfolding step by (rule Cons.IH [OF fin_rows sf])
      show ?thesis
      proof (cases "k = city_key L r")
        case True
        have mc: "map_of ?c k = Some (stored_row r)"
          using True None by (simp del: map_of_append add: map_of_snoc)
        have kc: "keyed L k (r # rows) = r # keyed L k rows"
          using True ne by (simp add: keyed_Cons)
        show ?thesis unfolding lhs mc kc using None True by (simp add: kept_def)
      next
        case False
        have kc: "keyed L k (r # rows) = keyed L k rows"
          using False by (auto simp: keyed_Cons)
        have mc: "map_of ?c k = map_of cities k"
          using False by (simp del: map_of_append add: map_of_snoc split: option.splits)
        show ?thesis unfolding lhs mc kc by (rule refl)
      qed
    next
      case (Some old)
      then have fo: "caught_population L (population old) \<noteq> None"
        using Cons.prems(2) by (auto simp: stored_finite_def)
      let ?c = "if row_pop L r > row_pop L old
           then AList.update (city_key L r) (stored_row r) cities else cities"
      have step: "load_rows L (r # rows) cities cs = load_rows L rows ?c (add_country L r cs)"
        using load_row_old [OF ne fin_r Some fo] by simp
      have sf: "stored_finite L ?c"
        using Cons.prems(2) fin_r by (simp add: stored_finite_update)
      have lhs: "map_of (global_cities (load_rows L (r # rows) cities cs)) k =
          kept L (map_of ?c k) (keyed L k rows)"
        unfolding step by (rule Cons.IH [OF fin_rows sf])
      show ?thesis
      proof (cases "k = city_key L r")
        case True
        have mc: "map_of ?c k = Some (if row_pop L r > row_pop L old then stored_row r else old)"
          using True Some by (simp add: update_conv')
        have kc: "keyed L k (r # rows) = r # keyed L k rows"
          using True ne by (simp add: keyed_Cons)
        show ?thesis unfolding lhs mc kc using Some True by (simp add: kept_def)
      next
        case False
        have kc: "keyed L k (r # rows) = keyed L k rows"
          using False by (auto simp: keyed_Cons)
        have mc: "map_of ?c k = map_of cities k"
          using False by (simp add: update_conv')
        show ?thesis unfolding lhs mc kc by (rule refl)
      qed
    qed
  qed
qed

lemma keep_best_snoc:
  "keep_best L best (rs @ [r]) =
     (if row_pop L r > row_pop L (keep_best L best rs) then stored_row r
      else keep_best L best rs)"
  by (induction rs arbitrary: best) auto

lemma keep_best_first_max:
  "\<exists>pre r post. r0 # rs = pre @ r # post \<and> keep_best L (stored_row r0) rs = stored_row r \<and>
     (\<forall>x \<in> set pre. row_pop L x < row_pop L r) \<and> (\<forall>x \<in> set post. row_pop L x \<le> row_pop L r)"
proof (induction rs rule: rev_induct)
  case Nil
  have "[r0] = [] @ r0 # [] \<and> keep_best L (stored_row r0) [] = stored_row r0 \<and>
     (\<forall>x \<in> set []. row_pop L x < row_pop L r0) \<and> (\<forall>x \<in> set []. row_pop L x \<le> row_pop L r0)"
    by simp
  then show ?case by blast
next
  case (snoc x xs)
  then obtain pre r post where
    d: "r0 # xs = pre @ r # post" and k: "keep_best L (stored_row r0) xs = stored_row r"
    and lt: "\<forall>y \<in> set pre. row_pop L y < row_pop L r"
    and le: "\<forall>y \<in> set post. row_pop L y \<le> row_pop L r"
    by blast
  show ?case
  proof (cases "row_pop L x > row_pop L r")
    case True
    have all: "\<forall>y \<in> set (r0 # xs). row_pop L y < row_pop L x"
    proof
      fix y assume "y \<in> set (r0 # xs)"
      then have "y \<in> set pre \<or> y = r \<or> y \<in> set post" unfolding d by auto
      then have "row_pop L y \<le> row_pop L r" using lt le by auto
      then show "row_pop L y < row_pop L x" using True by simp
    qed
    have "r0 # xs @ [x] = (r0 # xs) @ x # [] \<and>
        keep_best L (stored_row r0) (xs @ [x]) = stored_row x \<and>
        (\<forall>y \<in> set (r0 # xs). row_pop L y < row_pop L x) \<and>
        (\<forall>y \<in> set []. row_pop L y \<le> row_pop L x)"
      using True k all by (simp add: keep_best_snoc)
    then show ?thesis by blast
  next
    case False
    have "r0 # xs @ [x] = pre @ r # (post @ [x]) \<and>
        keep_best L (stored_row r0) (xs @ [x]) = stored_row r \<and>
        (\<forall>y \<in> set pre. row_pop L y < row_pop L r) \<and>
        (\<forall>y \<in> set (post @ [x]). row_pop L y \<le> row_pop L r)"
      using False k lt le d by (auto simp: keep_best_snoc)
    then show ?thesis by blast
  qed
qed

lemma load_keeps_first_largest:
  assumes "finite_pops L rows" and "keyed L k rows \<noteq> []"
  shows "\<exists>pre r post. keyed L k rows = pre @ r # post \<and>
     map_of (global_cities (load_global_cities L rows)) k = Some (stored_row r) \<and>
     (\<forall>x \<in> set pre. row_pop L x < row_pop L r) \<and>
     (\<forall>x \<in> set post. row_pop L x \<le> row_pop L r)"
proof -
  obtain r0 rs where ms: "keyed L k rows = r0 # rs"
    using assms(2) by (cases "keyed L k rows") auto
  have "stored_finite L []" by (simp add: stored_finite_def)
  from load_rows_map_of [OF assms(1) this, of "[]" k]
  have m: "map_of (global_cities (load_global_cities L rows)) k =
      Some (keep_best L (stored_row r0) rs)"
    by (simp add: load_global_cities_def ms kept_def)
  obtain pre r post where "r0 # rs = pre @ r # post"
    "keep_best L (stored_row r0) rs = stored_row r"
    "\<forall>x \<in> set pre. row_pop L x < row_pop L r" "\<forall>x \<in> set post. row_pop L x \<le> row_pop L r"
    using keep_best_first_max [of r0 rs L] by blast
  then show ?thesis using m ms by auto
qed

text \<open>
  C6. The loader keeps, for a key that several rows share, the first row of the largest
  population: that is \<open>load_keeps_first_largest\<close> above, for rows whose populations
  convert without an \<^verbatim>\<open>OverflowError\<close>. A row whose population denotes an infinity ends
  the load: \<^verbatim>\<open>int(float('inf'))\<close> raises \<^verbatim>\<open>OverflowError\<close>, which the inner handlers do
  not catch. Here the second row stops the loop, and the third row, of the key of the
  first and of a larger population, is never read.
\<close>

theorem load_stops_at_infinite_population:
  "global_cities (load_global_cities (plain_lib (\<lambda>q i. 0))
     [demo_row ''Fes'' ''Morocco'' ''100'', demo_row ''Sale'' ''Morocco'' ''inf'',
      demo_row ''Fes'' ''Morocco'' ''200'']) =
   [(S ''fes'', demo_row ''Fes'' ''Morocco'' ''100'')]"
  by code_simp


subsection \<open>Coordinate resolver and distance calculator\<close>

lemma pick_best_member:
  assumes a: "pick_best pool = Some c"
  shows "c \<in> set pool"
proof (cases "sort_key (\<lambda>c. (- fst (snd (snd c)), - snd (snd (snd c)))) pool")
  case Nil
  with a show ?thesis by (simp only: pick_best_def list.case option.distinct)
next
  case (Cons d ds)
  with a have "c = d" by (simp only: pick_best_def list.case option.inject)
  then have "c \<in> set (sort_key (\<lambda>c. (- fst (snd (snd c)), - snd (snd (snd c)))) pool)"
    by (simp only: Cons list.set_intros)
  then show ?thesis by (simp only: set_sort)
qed

lemma choose_candidate_member:
  assumes "choose_candidate cands = Some c"
  shows "c \<in> set cands"
proof (cases "pick_best (filter (\<lambda>c. 50000 \<le> snd (snd (snd c))) cands)")
  case None
  with assms have "pick_best (filter (\<lambda>c. snd (snd (snd c)) < 50000) cands) = Some c"
    by (simp only: choose_candidate_def option.case)
  from pick_best_member [OF this] show ?thesis by simp
next
  case (Some d)
  with assms have "d = c" by (simp only: choose_candidate_def option.case option.inject)
  with Some pick_best_member show ?thesis by fastforce
qed

lemma candidates_of_score:
  "c \<in> set (candidates_of L m q t gc) \<Longrightarrow> t \<le> fst (snd (snd c))"
  by (simp add: candidates_of_def)

lemma resolved_score: "resolved L data name s = Some p \<Longrightarrow> snd (snd (snd (snd p))) = s"
  by (auto simp: resolved_def split: option.splits)

lemma find_city_coordinates_score:
  assumes "find_city_coordinates L D city_name = Some p"
  shows "CITY_MATCH_THRESHOLD \<le> snd (snd (snd (snd p)))"
proof (cases "map_of (global_cities D) (normalize_text L city_name)")
  case (Some data)
  then have "resolved L data city_name 1.0 = Some p"
    using assms by (simp add: find_city_coordinates_def split: if_splits)
  from resolved_score [OF this] show ?thesis by (simp add: CITY_MATCH_THRESHOLD_def)
next
  case None
  let ?t = "if length (normalize_text L city_name) \<le> 5 then 0.90 else CITY_MATCH_THRESHOLD"
  let ?cands = "candidates_of L (detect_moroccan_city L city_name \<noteq> None)
                    (normalize_text L city_name) ?t (global_cities D)"
  from assms None obtain c where c: "choose_candidate ?cands = Some c"
    and r: "resolved L (fst (snd c)) city_name (fst (snd (snd c))) = Some p"
    by (simp add: find_city_coordinates_def split: if_splits option.splits)
  from c have "c \<in> set ?cands" by (rule choose_candidate_member)
  then have "?t \<le> fst (snd (snd c))" by (rule candidates_of_score)
  moreover have "CITY_MATCH_THRESHOLD \<le> ?t" by (simp add: CITY_MATCH_THRESHOLD_def)
  ultimately show ?thesis using resolved_score [OF r] by simp
qed

lemma S_Cons: "S (c # cs) = of_char c # S cs"
  by (simp add: S_def)

lemma did_you_mean_head: "take 2 (did_you_mean n c) = [73, 39]"
  by (simp add: did_you_mean_def S_Cons)

lemma other_reply_heads:
  "take 2 (S ''Please provide two valid city names.'') \<noteq> [73, 39]"
  "take 2 (S ''I couldn't identify that city, can you rephrase or specify the country?'') \<noteq> [73, 39]"
  "take 2 (S ''My main specialty is Morocco, but here is the information you requested: '' @ t) \<noteq> [73, 39]"
  "take 2 (S ''The distance between '' @ t) \<noteq> [73, 39]"
  "take 2 (S ''Sorry, I couldn't compute the distance right now.'') \<noteq> [73, 39]"
  by (simp_all add: S_Cons)

lemma confident_reply:
  assumes "\<And>p. resolve city_a = Some p \<Longrightarrow> CITY_MATCH_THRESHOLD \<le> snd (snd (snd (snd p)))"
    and "\<And>p. resolve city_b = Some p \<Longrightarrow> CITY_MATCH_THRESHOLD \<le> snd (snd (snd (snd p)))"
  shows "get_city_distance L resolve city_a city_b \<noteq> did_you_mean x y"
proof -
  have "take 2 (get_city_distance L resolve city_a city_b) \<noteq> [73, 39]"
  proof (cases "city_a = [] \<or> city_b = []")
    case True
    then show ?thesis by (simp add: get_city_distance_def other_reply_heads)
  next
    case ne: False
    show ?thesis
    proof (cases "resolve city_a")
      case None
      with ne show ?thesis by (simp add: get_city_distance_def other_reply_heads)
    next
      case a: (Some pa)
      show ?thesis
      proof (cases "resolve city_b")
        case None
        with ne a show ?thesis
          by (simp add: get_city_distance_def other_reply_heads split: prod.splits)
      next
        case b: (Some pb)
        obtain na la ga ca sa where pa: "pa = (na, la, ga, ca, sa)" by (cases pa) auto
        obtain nb lb gb cb sb where pb: "pb = (nb, lb, gb, cb, sb)" by (cases pb) auto
        have ns: "\<not> sa < CITY_MATCH_THRESHOLD" "\<not> sb < CITY_MATCH_THRESHOLD"
          using assms(1) [OF a] assms(2) [OF b] pa pb by simp_all
        show ?thesis
        proof (cases "haversine_distance L la ga lb gb")
          case None
          then have "get_city_distance L resolve city_a city_b =
              S ''Sorry, I couldn't compute the distance right now.''"
            using ne a b pa pb ns by (simp add: get_city_distance_def)
          then show ?thesis by (simp only: other_reply_heads(5) not_False_eq_True)
        next
          case (Some distance)
          let ?tail = "S ''The distance between '' @ na @ S '' and '' @ nb @ S '' is '' @
                  format_km L distance @ S '' km.''"
          have "get_city_distance L resolve city_a city_b =
              (if \<not> (is_morocco_place L na ca \<and> is_morocco_place L nb cb)
               then S ''My main specialty is Morocco, but here is the information you requested: '' @ ?tail
               else ?tail)"
            using ne a b pa pb ns Some by (simp add: get_city_distance_def)
          then have "get_city_distance L resolve city_a city_b = ?tail \<or>
              get_city_distance L resolve city_a city_b =
                S ''My main specialty is Morocco, but here is the information you requested: '' @ ?tail"
            by (simp split: if_splits)
          then show ?thesis
          proof
            assume e: "get_city_distance L resolve city_a city_b = ?tail"
            show ?thesis unfolding e by (rule other_reply_heads(4))
          next
            assume e: "get_city_distance L resolve city_a city_b =
                S ''My main specialty is Morocco, but here is the information you requested: '' @ ?tail"
            show ?thesis unfolding e by (rule other_reply_heads(3))
          qed
        qed
      qed
    qed
  qed
  then show ?thesis using did_you_mean_head [of x y] by metis
qed

lemma did_you_mean_names:
  "sublist n (did_you_mean n c)" "sublist c (did_you_mean n c)"
proof -
  let ?p = "S ''I'm not sure which city you mean. Did you mean ''"
  show "sublist n (did_you_mean n c)"
  proof (cases "c = []")
    case True
    then have "did_you_mean n c = ?p @ n @ S ''?''" by (simp add: did_you_mean_def)
    then show ?thesis unfolding sublist_def by blast
  next
    case False
    then have "did_you_mean n c = ?p @ n @ (S '' ('' @ c @ S '')'' @ S ''?'')"
      by (simp add: did_you_mean_def)
    then show ?thesis unfolding sublist_def by blast
  qed
  show "sublist c (did_you_mean n c)"
  proof (cases "c = []")
    case True
    then show ?thesis by simp
  next
    case False
    then have "did_you_mean n c = (?p @ n @ S '' ('') @ c @ (S '')'' @ S ''?'')"
      by (simp add: did_you_mean_def)
    then show ?thesis unfolding sublist_def by blast
  qed
qed

text \<open>
  C3. When both names resolve and a confidence score is below 0.80, the reply of
  \<^verbatim>\<open>get_city_distance\<close> is the question \<^verbatim>\<open>Did you mean ...?\<close> for the first place of low
  confidence, naming its display name and (when the record has one) its country; the
  distance plays no part in it (the reply is the same under any formatting of distances).
  This holds for whatever resolver stands behind \<^verbatim>\<open>self.find_city_coordinates\<close>; the
  engine's own resolver never returns a score below 0.80 (see C4), so the example uses
  another one.
\<close>

theorem low_confidence_reply:
  assumes "city_a \<noteq> []" and "city_b \<noteq> []"
    and "resolve city_a = Some (name_a, lat_a, lng_a, country_a, score_a)"
    and "resolve city_b = Some (name_b, lat_b, lng_b, country_b, score_b)"
    and "score_a < CITY_MATCH_THRESHOLD \<or> score_b < CITY_MATCH_THRESHOLD"
  shows "get_city_distance L resolve city_a city_b =
           (if score_a < CITY_MATCH_THRESHOLD then did_you_mean name_a country_a
            else did_you_mean name_b country_b) \<and>
         sublist (if score_a < CITY_MATCH_THRESHOLD then name_a else name_b)
           (get_city_distance L resolve city_a city_b) \<and>
         sublist (if score_a < CITY_MATCH_THRESHOLD then country_a else country_b)
           (get_city_distance L resolve city_a city_b) \<and>
         get_city_distance (L\<lparr>format_km := f\<rparr>) resolve city_a city_b =
           get_city_distance L resolve city_a city_b"
proof -
  have r: "\<And>M. get_city_distance M resolve city_a city_b =
           (if score_a < CITY_MATCH_THRESHOLD then did_you_mean name_a country_a
            else did_you_mean name_b country_b)"
    using assms by (auto simp: get_city_distance_def)
  show ?thesis unfolding r by (simp add: did_you_mean_names)
qed

theorem low_confidence_reply_witness:
  "S ''Fez'' \<noteq> [] \<and> S ''Rabat'' \<noteq> [] \<and>
   demo_resolver (S ''Fez'') = Some (S ''Fes'', Num 34, Num (-5), S ''Morocco'', 0.7) \<and>
   demo_resolver (S ''Rabat'') = Some (S ''Rabat'', Num 34, Num (-7), S ''Morocco'', 1) \<and>
   (0.7 < CITY_MATCH_THRESHOLD \<or> 1 < CITY_MATCH_THRESHOLD) \<and>
   get_city_distance (plain_lib (\<lambda>q i. 0)) demo_resolver (S ''Fez'') (S ''Rabat'') =
     S ''I'm not sure which city you mean. Did you mean Fes (Morocco)?''"
proof -
  have h: "S ''Fez'' \<noteq> []" "S ''Rabat'' \<noteq> []"
    "demo_resolver (S ''Fez'') = Some (S ''Fes'', Num 34, Num (-5), S ''Morocco'', 0.7)"
    "demo_resolver (S ''Rabat'') = Some (S ''Rabat'', Num 34, Num (-7), S ''Morocco'', 1)"
    "0.7 < CITY_MATCH_THRESHOLD \<or> 1 < CITY_MATCH_THRESHOLD"
    by (simp_all add: S_Cons demo_resolver_def CITY_MATCH_THRESHOLD_def S_def)
  have d: "did_you_mean (S ''Fes'') (S ''Morocco'') =
      S ''I'm not sure which city you mean. Did you mean Fes (Morocco)?''"
    by code_simp
  have t: "(0.7::real) < CITY_MATCH_THRESHOLD" by (simp add: CITY_MATCH_THRESHOLD_def)
  show ?thesis
    using h low_confidence_reply [OF h, of "plain_lib (\<lambda>q i. 0)"] d t by simp
qed

text \<open>The haversine term of one coordinate difference.\<close>

lemma hav_symmetric:
  assumes "float_symmetric L"
  shows "m_sin L (f_div L (f_sub L a b) (Num 2)) \<bind> f_pow2 L =
         m_sin L (f_div L (f_sub L b a) (Num 2)) \<bind> f_pow2 L"
proof -
  have "f_div L (f_sub L a b) (Num 2) = f_neg (f_div L (f_sub L b a) (Num 2))"
    using assms unfolding float_symmetric_def by metis
  moreover have "map_option f_neg r \<bind> f_pow2 L = r \<bind> f_pow2 L" for r
    using assms unfolding float_symmetric_def by (cases r) simp_all
  ultimately show ?thesis
    using assms unfolding float_symmetric_def by metis
qed

lemma haversine_hav:
  "haversine_distance L lat1 lon1 lat2 lon2 =
     (m_sin L (f_div L (f_sub L (m_radians L lat2) (m_radians L lat1)) (Num 2)) \<bind> f_pow2 L) \<bind>
     (\<lambda>h1. m_cos L (m_radians L lat1) \<bind>
     (\<lambda>c1. m_cos L (m_radians L lat2) \<bind>
     (\<lambda>c2. (m_sin L (f_div L (f_sub L (m_radians L lon2) (m_radians L lon1)) (Num 2)) \<bind> f_pow2 L) \<bind>
     (\<lambda>h2. m_sqrt L (f_add L h1 (f_mul L (f_mul L c1 c2) h2)) \<bind>
     (\<lambda>sa. m_sqrt L (f_sub L (Num 1) (f_add L h1 (f_mul L (f_mul L c1 c2) h2))) \<bind>
     (\<lambda>sb. Some (f_mul L (Num 6371) (f_mul L (Num 2) (m_atan2 L sa sb)))))))))"
  unfolding haversine_distance_def Let_def by (simp add: Option.bind_assoc)

lemma haversine_symmetric:
  assumes "float_symmetric L"
  shows "haversine_distance L lat1 lon1 lat2 lon2 = haversine_distance L lat2 lon2 lat1 lon1"
proof -
  have m: "f_mul L a b = f_mul L b a" for a b
    using assms unfolding float_symmetric_def by metis
  define H1 where "H1 = m_sin L (f_div L (f_sub L (m_radians L lat2) (m_radians L lat1)) (Num 2)) \<bind> f_pow2 L"
  define H2 where "H2 = m_sin L (f_div L (f_sub L (m_radians L lon2) (m_radians L lon1)) (Num 2)) \<bind> f_pow2 L"
  define C1 where "C1 = m_cos L (m_radians L lat1)"
  define C2 where "C2 = m_cos L (m_radians L lat2)"
  define K where "K = (\<lambda>a. m_sqrt L a \<bind>
     (\<lambda>sa. m_sqrt L (f_sub L (Num 1) a) \<bind>
     (\<lambda>sb. Some (f_mul L (Num 6371) (f_mul L (Num 2) (m_atan2 L sa sb))))))"
  have l: "haversine_distance L lat1 lon1 lat2 lon2 =
      H1 \<bind> (\<lambda>h1. C1 \<bind> (\<lambda>c1. C2 \<bind> (\<lambda>c2. H2 \<bind>
        (\<lambda>h2. K (f_add L h1 (f_mul L (f_mul L c1 c2) h2))))))"
    unfolding haversine_hav H1_def H2_def C1_def C2_def K_def by (rule refl)
  have r: "haversine_distance L lat2 lon2 lat1 lon1 =
      H1 \<bind> (\<lambda>h1. C2 \<bind> (\<lambda>c2. C1 \<bind> (\<lambda>c1. H2 \<bind>
        (\<lambda>h2. K (f_add L h1 (f_mul L (f_mul L c2 c1) h2))))))"
    unfolding haversine_hav H1_def H2_def C1_def C2_def K_def
      hav_symmetric [OF assms, of "m_radians L lat1" "m_radians L lat2"]
      hav_symmetric [OF assms, of "m_radians L lon1" "m_radians L lon2"]
    by (rule refl)
  show ?thesis
  proof (cases H1)
    case None
    then show ?thesis unfolding l r by simp
  next
    case h: (Some h1)
    show ?thesis
    proof (cases C1)
      case None
      then show ?thesis unfolding l r h by (cases C2) simp_all
    next
      case c1: (Some c1)
      show ?thesis
      proof (cases C2)
        case None
        then show ?thesis unfolding l r h c1 by simp
      next
        case c2: (Some c2)
        show ?thesis unfolding l r h c1 c2 by (simp add: m [of c1 c2])
      qed
    qed
  qed
qed

text \<open>Equal points: every intermediate result is exact.\<close>

lemma haversine_same_point:
  assumes "float_exact_at_zero L"
  shows "haversine_distance L (Num x) (Num y) (Num x) (Num y) = Some (Num 0)"
proof -
  obtain rx where rx: "m_radians L (Num x) = Num rx"
    using assms unfolding float_exact_at_zero_def by (metis is_num.elims(2))
  obtain ry where ry: "m_radians L (Num y) = Num ry"
    using assms unfolding float_exact_at_zero_def by (metis is_num.elims(2))
  have "unit_num (m_cos L (Num rx))"
    using assms unfolding float_exact_at_zero_def by metis
  then obtain c where c: "m_cos L (Num rx) = Some (Num c)" "\<bar>c\<bar> \<le> 1"
    unfolding unit_num_def by (auto split: option.splits pyfloat.splits)
  have "is_num (f_mul L (Num c) (Num c))"
    using assms c(2) unfolding float_exact_at_zero_def by metis
  then obtain p where p: "f_mul L (Num c) (Num c) = Num p"
    by (metis is_num.elims(2))
  have z: "f_sub L (Num rx) (Num rx) = Num 0" "f_sub L (Num ry) (Num ry) = Num 0"
    "f_mul L (Num p) (Num 0) = Num 0" "f_mul L (Num 2) (Num 0) = Num 0"
    "f_mul L (Num 6371) (Num 0) = Num 0"
    "f_div L (Num 0) (Num 2) = Num 0" "m_sin L (Num 0) = Some (Num 0)"
    "f_pow2 L (Num 0) = Some (Num 0)" "f_add L (Num 0) (Num 0) = Num 0"
    "m_sqrt L (Num 0) = Some (Num 0)" "f_sub L (Num 1) (Num 0) = Num 1"
    "m_sqrt L (Num 1) = Some (Num 1)" "m_atan2 L (Num 0) (Num 1) = Num 0"
    using assms unfolding float_exact_at_zero_def by metis+
  show ?thesis
    unfolding haversine_hav rx ry z c(1) by (simp add: p z)
qed

text \<open>Exact arithmetic has the properties asked of floating-point arithmetic.\<close>

lemma plain_float_fields:
  "f_add (plain_lib t) = exact_add" "f_sub (plain_lib t) = exact_sub"
  "f_mul (plain_lib t) = exact_mul" "f_div (plain_lib t) = exact_div"
  "f_pow2 (plain_lib t) = exact_pow2" "m_radians (plain_lib t) = exact_radians"
  "m_sin (plain_lib t) = exact_sin" "m_cos (plain_lib t) = exact_cos"
  "m_sqrt (plain_lib t) = exact_sqrt" "m_atan2 (plain_lib t) = exact_atan2"
  "format_km (plain_lib t) = plain_format_km"
  by (simp_all add: plain_lib_def)

lemma exact_sub_odd: "exact_sub a b = f_neg (exact_sub b a)"
  by (cases a; cases b) (simp_all add: exact_sub_def)

lemma exact_div_odd: "exact_div (f_neg a) b = f_neg (exact_div a b)"
  by (cases a; cases b) simp_all

lemma exact_sin_odd: "exact_sin (f_neg a) = map_option f_neg (exact_sin a)"
  by (cases a) (simp_all add: exact_sin_def)

lemma exact_pow2_even: "exact_pow2 (f_neg a) = exact_pow2 a"
  by (cases a) (simp_all add: exact_pow2_def)

lemma exact_mul_commute: "exact_mul a b = exact_mul b a"
  by (cases a; cases b) (simp_all add: mult.commute)

lemma plain_float_symmetric: "float_symmetric (plain_lib t)"
  unfolding float_symmetric_def plain_float_fields
  using exact_sub_odd exact_div_odd exact_sin_odd exact_pow2_even exact_mul_commute
  by blast

lemma plain_float_exact: "float_exact_at_zero (plain_lib t)"
  unfolding float_exact_at_zero_def plain_float_fields
  by (simp add: exact_radians_def exact_sub_def exact_cos_def unit_num_def exact_sin_def
      exact_pow2_def exact_sqrt_def exact_atan2_def real_atan2_def)

text \<open>A quarter of the equator: \<open>6371 * pi / 2\<close> kilometres, about 10007.5.\<close>

lemma quarter_turn:
  "haversine_distance (plain_lib t) (Num 0) (Num 0) (Num 0) (Num 90) = Some (Num (6371 * pi / 2))"
proof -
  have r: "exact_radians (Num 0) = Num 0" "exact_radians (Num 90) = Num (pi / 2)"
    by (simp_all add: exact_radians_def)
  have d: "exact_sub (Num 0) (Num 0) = Num 0" "exact_sub (Num (pi / 2)) (Num 0) = Num (pi / 2)"
    "exact_div (Num 0) (Num 2) = Num 0" "exact_div (Num (pi / 2)) (Num 2) = Num (pi / 4)"
    by (simp_all add: exact_sub_def)
  have s: "exact_sin (Num 0) = Some (Num 0)" "exact_sin (Num (pi / 4)) = Some (Num (sqrt 2 / 2))"
    "exact_cos (Num 0) = Some (Num 1)"
    by (simp_all add: exact_sin_def exact_cos_def sin_45)
  have p: "exact_pow2 (Num 0) = Some (Num 0)" "exact_pow2 (Num (sqrt 2 / 2)) = Some (Num (1 / 2))"
    by (simp_all add: exact_pow2_def)
  have a: "exact_add (Num 0) (exact_mul (exact_mul (Num 1) (Num 1)) (Num (1 / 2))) = Num (1 / 2)"
    "exact_sub (Num 1) (Num (1 / 2)) = Num (1 / 2)"
    by (simp_all add: exact_sub_def)
  have q: "exact_sqrt (Num (1 / 2)) = Some (Num (sqrt (1 / 2)))"
    by (simp add: exact_sqrt_def)
  have "real_atan2 (sqrt (1 / 2)) (sqrt (1 / 2)) = pi / 4"
    by (simp add: real_atan2_def arctan_one)
  then have c: "exact_atan2 (Num (sqrt (1 / 2))) (Num (sqrt (1 / 2))) = Num (pi / 4)"
    by (simp add: exact_atan2_def)
  have f: "exact_mul (Num 6371) (exact_mul (Num 2) (Num (pi / 4))) = Num (6371 * pi / 2)"
    by simp
  show ?thesis
    unfolding haversine_hav plain_float_fields r d s
    by (simp only: bind.bind_lunit p a q c f)
qed

lemma infinite_latitude:
  "haversine_distance (plain_lib t) PlusInf (Num 0) (Num 0) (Num 0) = None"
  unfolding haversine_hav plain_float_fields
  by (simp add: exact_radians_def exact_sub_def exact_sin_def)

lemma format_zero: "plain_format_km (Num 0) = S ''0.0''"
  by (simp add: plain_format_km_def decimal_def S_def)

lemma computed_reply:
  assumes "city_a \<noteq> []" and "city_b \<noteq> []"
    and "resolve city_a = Some (name_a, lat_a, lng_a, country_a, score_a)"
    and "resolve city_b = Some (name_b, lat_b, lng_b, country_b, score_b)"
    and "CITY_MATCH_THRESHOLD \<le> score_a" and "CITY_MATCH_THRESHOLD \<le> score_b"
    and "haversine_distance L lat_a lng_a lat_b lng_b = Some distance"
  shows "get_city_distance L resolve city_a city_b =
           disclaimer L name_a country_a name_b country_b @
           S ''The distance between '' @ name_a @ S '' and '' @ name_b @ S '' is '' @
           format_km L distance @ S '' km.''"
proof -
  have ns: "\<not> score_a < CITY_MATCH_THRESHOLD" "\<not> score_b < CITY_MATCH_THRESHOLD"
    using assms(5,6) by simp_all
  show ?thesis
    using assms(1-4,7) ns by (simp add: get_city_distance_def disclaimer_def)
qed

lemma failed_reply:
  assumes "city_a \<noteq> []" and "city_b \<noteq> []"
    and "resolve city_a = Some (name_a, lat_a, lng_a, country_a, score_a)"
    and "resolve city_b = Some (name_b, lat_b, lng_b, country_b, score_b)"
    and "CITY_MATCH_THRESHOLD \<le> score_a" and "CITY_MATCH_THRESHOLD \<le> score_b"
    and "haversine_distance L lat_a lng_a lat_b lng_b = None"
  shows "get_city_distance L resolve city_a city_b =
           S ''Sorry, I couldn't compute the distance right now.''"
proof -
  have ns: "\<not> score_a < CITY_MATCH_THRESHOLD" "\<not> score_b < CITY_MATCH_THRESHOLD"
    using assms(5,6) by simp_all
  show ?thesis
    using assms(1-4,7) ns by (simp add: get_city_distance_def)
qed

lemma disclaimer_commute:
  "disclaimer L name_b country_b name_a country_a = disclaimer L name_a country_a name_b country_b"
  by (auto simp: disclaimer_def)

text \<open>
  C9. When a distance is computed (both names resolve, both scores are at least 0.80 and
  the haversine formula raises no exception), the replies for (A, B) and for (B, A) carry
  the same disclaimer and the same distance and differ in the order of the two names
  only. The haversine formula gives the same result, or fails alike, when the two points
  are swapped, and gives 0 for two equal points whose coordinates are numbers.
  Floating-point arithmetic is a parameter of the statement: it rests on the facts
  \<open>float_symmetric\<close> and \<open>float_exact_at_zero\<close> only, which hold for IEEE 754 doubles.
\<close>

theorem distance_reply_symmetric:
  assumes "float_symmetric L" and "float_exact_at_zero L"
    and "city_a \<noteq> []" and "city_b \<noteq> []"
    and "resolve city_a = Some (name_a, lat_a, lng_a, country_a, score_a)"
    and "resolve city_b = Some (name_b, lat_b, lng_b, country_b, score_b)"
    and "CITY_MATCH_THRESHOLD \<le> score_a" and "CITY_MATCH_THRESHOLD \<le> score_b"
    and "haversine_distance L lat_a lng_a lat_b lng_b = Some distance"
  shows "get_city_distance L resolve city_a city_b =
           disclaimer L name_a country_a name_b country_b @
           S ''The distance between '' @ name_a @ S '' and '' @ name_b @ S '' is '' @
           format_km L distance @ S '' km.'' \<and>
         get_city_distance L resolve city_b city_a =
           disclaimer L name_a country_a name_b country_b @
           S ''The distance between '' @ name_b @ S '' and '' @ name_a @ S '' is '' @
           format_km L distance @ S '' km.'' \<and>
         haversine_distance L lat1 lon1 lat2 lon2 = haversine_distance L lat2 lon2 lat1 lon1 \<and>
         haversine_distance L (Num x) (Num y) (Num x) (Num y) = Some (Num 0)"
proof -
  have rev_d: "haversine_distance L lat_b lng_b lat_a lng_a = Some distance"
    using haversine_symmetric [OF assms(1), of lat_b lng_b lat_a lng_a] assms(9) by simp
  have ab: "get_city_distance L resolve city_a city_b =
           disclaimer L name_a country_a name_b country_b @
           S ''The distance between '' @ name_a @ S '' and '' @ name_b @ S '' is '' @
           format_km L distance @ S '' km.''"
    by (rule computed_reply [OF assms(3-9)])
  have ba: "get_city_distance L resolve city_b city_a =
           disclaimer L name_b country_b name_a country_a @
           S ''The distance between '' @ name_b @ S '' and '' @ name_a @ S '' is '' @
           format_km L distance @ S '' km.''"
    by (rule computed_reply [OF assms(4) assms(3) assms(6) assms(5) assms(8) assms(7) rev_d])
  show ?thesis
    unfolding ab ba disclaimer_commute [of L name_b country_b name_a country_a]
    using haversine_symmetric [OF assms(1), of lat1 lon1 lat2 lon2]
      haversine_same_point [OF assms(2), of x y]
    by simp
qed

lemma demo_alpha:
  "find_city_coordinates (plain_lib (\<lambda>q i. 0)) equator_gazetteer (S ''Alpha'') =
     Some (S ''Alpha'', Num 0, Num 0, S ''Nowhere'', 1)"
  by code_simp

lemma demo_omega:
  "find_city_coordinates (plain_lib (\<lambda>q i. 0)) equator_gazetteer (S ''Omega'') =
     Some (S ''Omega'', Num 0, Num 90, S ''Nowhere'', 1)"
  by code_simp

lemma demo_limbo:
  "find_city_coordinates (plain_lib (\<lambda>q i. 0)) equator_gazetteer (S ''Limbo'') =
     Some (S ''Limbo'', PlusInf, Num 0, S ''Nowhere'', 1)"
  by code_simp

lemma equator_disclaimer:
  "disclaimer (plain_lib (\<lambda>q i. 0)) (S ''Alpha'') (S ''Nowhere'') (S ''Omega'') (S ''Nowhere'') =
     S ''My main specialty is Morocco, but here is the information you requested: ''"
  by code_simp

lemma threshold_one: "CITY_MATCH_THRESHOLD \<le> 1"
  by (simp add: CITY_MATCH_THRESHOLD_def)

lemma demo_names: "S ''Alpha'' \<noteq> []" "S ''Omega'' \<noteq> []" "S ''Limbo'' \<noteq> []"
  "S ''Rabat'' \<noteq> []" "S ''Lisbonn'' \<noteq> []"
  by (simp_all add: S_def)

text \<open>A latitude that is infinite: the sine raises and the engine apologises.\<close>

lemma limbo_reply:
  "get_city_distance (plain_lib (\<lambda>q i. 0))
     (find_city_coordinates (plain_lib (\<lambda>q i. 0)) equator_gazetteer) (S ''Limbo'') (S ''Alpha'') =
   S ''Sorry, I couldn't compute the distance right now.''"
  by (rule failed_reply [OF demo_names(3) demo_names(1) demo_limbo demo_alpha
        threshold_one threshold_one infinite_latitude])

theorem distance_reply_symmetric_witness:
  "float_symmetric (plain_lib (\<lambda>q i. 0)) \<and> float_exact_at_zero (plain_lib (\<lambda>q i. 0)) \<and>
   S ''Alpha'' \<noteq> [] \<and> S ''Omega'' \<noteq> [] \<and>
   find_city_coordinates (plain_lib (\<lambda>q i. 0)) equator_gazetteer (S ''Alpha'') =
     Some (S ''Alpha'', Num 0, Num 0, S ''Nowhere'', 1) \<and>
   find_city_coordinates (plain_lib (\<lambda>q i. 0)) equator_gazetteer (S ''Omega'') =
     Some (S ''Omega'', Num 0, Num 90, S ''Nowhere'', 1) \<and>
   CITY_MATCH_THRESHOLD \<le> 1 \<and>
   haversine_distance (plain_lib (\<lambda>q i. 0)) (Num 0) (Num 0) (Num 0) (Num 90) =
     Some (Num (6371 * pi / 2)) \<and>
   get_city_distance (plain_lib (\<lambda>q i. 0))
     (find_city_coordinates (plain_lib (\<lambda>q i. 0)) equator_gazetteer) (S ''Alpha'') (S ''Omega'') =
   S ''My main specialty is Morocco, but here is the information you requested: The distance between Alpha and Omega is '' @
     plain_format_km (Num (6371 * pi / 2)) @ S '' km.'' \<and>
   get_city_distance (plain_lib (\<lambda>q i. 0))
     (find_city_coordinates (plain_lib (\<lambda>q i. 0)) equator_gazetteer) (S ''Omega'') (S ''Alpha'') =
   S ''My main specialty is Morocco, but here is the information you requested: The distance between Omega and Alpha is '' @
     plain_format_km (Num (6371 * pi / 2)) @ S '' km.'' \<and>
   haversine_distance (plain_lib (\<lambda>q i. 0)) (Num 0) (Num 90) (Num 0) (Num 0) =
     Some (Num (6371 * pi / 2)) \<and>
   haversine_distance (plain_lib (\<lambda>q i. 0)) (Num 0) (Num 90) (Num 0) (Num 90) = Some (Num 0) \<and>
   Num (6371 * pi / 2) \<noteq> Num 0"
proof -
  have a: "S ''My main specialty is Morocco, but here is the information you requested: '' @
      S ''The distance between '' @ S ''Alpha'' @ S '' and '' @ S ''Omega'' @ S '' is '' @ t =
      S ''My main specialty is Morocco, but here is the information you requested: The distance between Alpha and Omega is '' @ t"
    for t by (simp add: S_def)
  have b: "S ''My main specialty is Morocco, but here is the information you requested: '' @
      S ''The distance between '' @ S ''Omega'' @ S '' and '' @ S ''Alpha'' @ S '' is '' @ t =
      S ''My main specialty is Morocco, but here is the information you requested: The distance between Omega and Alpha is '' @ t"
    for t by (simp add: S_def)
  have k: "format_km (plain_lib (\<lambda>q i. 0)) = plain_format_km"
    by (rule plain_float_fields(11))
  note q = quarter_turn [of "\<lambda>q i. 0"]
  note t = distance_reply_symmetric
    [OF plain_float_symmetric plain_float_exact demo_names(1) demo_names(2) demo_alpha demo_omega
        threshold_one threshold_one q, of "Num 0" "Num 90" "Num 0" "Num 0" 0 90]
  show ?thesis
    using t q demo_names(1,2) demo_alpha demo_omega threshold_one
      plain_float_symmetric [of "\<lambda>q i. 0"] plain_float_exact [of "\<lambda>q i. 0"]
    unfolding equator_disclaimer k a b
    by simp
qed

lemma demo_rabat: "find_city_coordinates (plain_lib (\<lambda>q i. 0)) demo_gazetteer (S ''Rabat'') =
    Some (S ''Rabat'', Num 34, Num 6, S ''Morocco'', 1)"
  by code_simp

lemma demo_lisbonn: "find_city_coordinates (plain_lib (\<lambda>q i. 0)) demo_gazetteer (S ''Lisbonn'') =
    Some (S ''Lisbon'', Num 34, Num 6, S ''Portugal'', 12 / 13)"
  by code_simp

lemma demo_disclaimer:
  "disclaimer (plain_lib (\<lambda>q i. 0)) (S ''Rabat'') (S ''Morocco'') (S ''Lisbon'') (S ''Portugal'') =
     S ''My main specialty is Morocco, but here is the information you requested: ''"
  by code_simp

text \<open>
  C4. Whenever \<^verbatim>\<open>find_city_coordinates\<close> returns a place, its score is at least 0.80 (1.0
  for an exact key, at least the threshold 0.90 or 0.80 that filtered the candidates
  otherwise), and \<^verbatim>\<open>get_city_distance\<close> on this resolver never gives the reply of the
  low-confidence branch.
\<close>

theorem resolver_never_low_confidence:
  assumes "find_city_coordinates L D city_name = Some (name, la, lo, country_name, score)"
  shows "CITY_MATCH_THRESHOLD \<le> score \<and>
         get_city_distance L (find_city_coordinates L D) city_a city_b \<noteq> did_you_mean x y"
proof -
  have "CITY_MATCH_THRESHOLD \<le> score"
    using find_city_coordinates_score [OF assms] by simp
  moreover have "get_city_distance L (find_city_coordinates L D) city_a city_b \<noteq> did_you_mean x y"
    by (rule confident_reply) (rule find_city_coordinates_score, assumption)+
  ultimately show ?thesis by simp
qed

theorem resolver_never_low_confidence_witness:
  "find_city_coordinates (plain_lib (\<lambda>q i. 0)) demo_gazetteer (S ''Lisbonn'') =
     Some (S ''Lisbon'', Num 34, Num 6, S ''Portugal'', 12 / 13) \<and>
   CITY_MATCH_THRESHOLD \<le> 12 / 13 \<and>
   get_city_distance (plain_lib (\<lambda>q i. 0))
     (find_city_coordinates (plain_lib (\<lambda>q i. 0)) demo_gazetteer) (S ''Rabat'') (S ''Lisbonn'') =
   S ''My main specialty is Morocco, but here is the information you requested: The distance between Rabat and Lisbon is 0.0 km.''"
proof -
  have t: "CITY_MATCH_THRESHOLD \<le> 12 / 13" by (simp add: CITY_MATCH_THRESHOLD_def)
  have a: "S ''My main specialty is Morocco, but here is the information you requested: '' @
      S ''The distance between '' @ S ''Rabat'' @ S '' and '' @ S ''Lisbon'' @ S '' is '' @
      S ''0.0'' @ S '' km.'' =
      S ''My main specialty is Morocco, but here is the information you requested: The distance between Rabat and Lisbon is 0.0 km.''"
    by (simp add: S_def)
  have g: "get_city_distance (plain_lib (\<lambda>q i. 0))
     (find_city_coordinates (plain_lib (\<lambda>q i. 0)) demo_gazetteer) (S ''Rabat'') (S ''Lisbonn'') =
   S ''My main specialty is Morocco, but here is the information you requested: The distance between Rabat and Lisbon is 0.0 km.''"
    unfolding computed_reply [OF demo_names(4) demo_names(5) demo_rabat demo_lisbonn threshold_one t
        haversine_same_point [OF plain_float_exact]]
      demo_disclaimer plain_float_fields(11) format_zero
    by (rule a)
  show ?thesis
    using resolver_never_low_confidence [OF demo_lisbonn] demo_lisbonn g by simp
qed


subsection \<open>Intent classifier\<close>

lemma any_keyword_iff: "any_keyword hit kws \<longleftrightarrow> (\<exists>kw \<in> set kws. hit kw)"
  by (induction kws) auto

lemma scan_intents_find:
  "scan_intents hit tbl =
     map_option fst
       (find (\<lambda>e. fst e \<notin> set priority_intents \<and> (\<exists>kw \<in> set (snd e). hit kw)) tbl)"
  by (induction tbl) (simp_all add: any_keyword_iff)

text \<open>
  The cascade of \<^verbatim>\<open>_detect_intent\<close>, with the tests as the source makes them: the
  joke/troll loop, the distance loop, the weather loop, then the table in declared order.
\<close>

lemma detect_intent_cascade:
  "detect_intent L user_input =
     (if \<exists>kw \<in> set (keywords_of (S ''joke_or_troll'')). troll_trigger_hits L user_input kw
      then Some (S ''joke_or_troll'')
      else if \<exists>kw \<in> set (keywords_of (S ''ask_distance'')). trigger_hits L user_input kw
      then Some (S ''ask_distance'')
      else if \<exists>kw \<in> set (keywords_of (S ''ask_weather'')). trigger_hits L user_input kw
      then Some (S ''ask_weather'')
      else map_option fst
             (find (\<lambda>e. fst e \<notin> set priority_intents \<and>
                         (\<exists>kw \<in> set (snd e). late_trigger_hits L user_input kw))
                intent_keywords))"
  unfolding detect_intent_def Let_def any_keyword_iff scan_intents_find
    troll_trigger_hits_def trigger_hits_def late_trigger_hits_def expanded_query_def
  by (rule refl)

text \<open>For \<^verbatim>\<open>km rain\<close> a distance trigger and a weather trigger hit; the distance wins.\<close>

lemma km_rain_hits:
  "trigger_hits (plain_lib (\<lambda>q i. 0)) (S ''km rain'') (S ''km'')"
  "trigger_hits (plain_lib (\<lambda>q i. 0)) (S ''km rain'') (S ''rain'')"
  "S ''km'' \<in> set (keywords_of (S ''ask_distance''))"
  "S ''rain'' \<in> set (keywords_of (S ''ask_weather''))"
  "\<not> list_ex (troll_trigger_hits (plain_lib (\<lambda>q i. 0)) (S ''km rain''))
       (keywords_of (S ''joke_or_troll''))"
  by code_simp+

lemma km_rain_is_distance:
  "trigger_hits (plain_lib (\<lambda>q i. 0)) (S ''km rain'') (S ''km'') \<and>
   trigger_hits (plain_lib (\<lambda>q i. 0)) (S ''km rain'') (S ''rain'') \<and>
   S ''km'' \<in> set (keywords_of (S ''ask_distance'')) \<and>
   S ''rain'' \<in> set (keywords_of (S ''ask_weather'')) \<and>
   detect_intent (plain_lib (\<lambda>q i. 0)) (S ''km rain'') = Some (S ''ask_distance'')"
proof -
  have nt: "\<not> (\<exists>kw \<in> set (keywords_of (S ''joke_or_troll'')).
      troll_trigger_hits (plain_lib (\<lambda>q i. 0)) (S ''km rain'') kw)"
    using km_rain_hits(5) unfolding list_ex_iff by blast
  have d: "\<exists>kw \<in> set (keywords_of (S ''ask_distance'')).
      trigger_hits (plain_lib (\<lambda>q i. 0)) (S ''km rain'') kw"
    using km_rain_hits(1,3) by blast
  have "detect_intent (plain_lib (\<lambda>q i. 0)) (S ''km rain'') = Some (S ''ask_distance'')"
    unfolding detect_intent_cascade [of "plain_lib (\<lambda>q i. 0)" "S ''km rain''"]
    using nt d by (simp only: if_True if_False simp_thms)
  then show ?thesis using km_rain_hits(1-4) by blast
qed

text \<open>
  C7. The joke/troll loop of \<^verbatim>\<open>_detect_intent\<close> tests a trigger by containment
  (\<^verbatim>\<open>kw_norm in query\<close>), so this category takes the priority also when none of its
  triggers hits in the sense the specification gives to a hit (a whole-word match, a
  lemma match or a similarity above 0.8). For the input \<^verbatim>\<open>prankster km\<close> the trigger
  \<^verbatim>\<open>prank\<close> occurs inside a longer word only, no joke/troll trigger hits, the distance
  trigger \<^verbatim>\<open>km\<close> hits as a whole word, and the classifier answers \<^verbatim>\<open>joke_or_troll\<close>
  where the priority order gives \<^verbatim>\<open>ask_distance\<close>.
\<close>

theorem prankster_km_is_troll:
  "detect_intent (plain_lib (\<lambda>q i. 0)) (S ''prankster km'') = Some (S ''joke_or_troll'') \<and>
   py_in (S ''prank'') (S ''prankster km'') \<and>
   \<not> any_keyword
       (spec_troll_hit (plain_lib (\<lambda>q i. 0))
          (normalize_text (plain_lib (\<lambda>q i. 0)) (S ''prankster km''))
          (lemmatize_text (plain_lib (\<lambda>q i. 0))
             (normalize_text (plain_lib (\<lambda>q i. 0)) (S ''prankster km''))))
       (keywords_of (S ''joke_or_troll'')) \<and>
   S ''km'' \<in> set (keywords_of (S ''ask_distance'')) \<and>
   trigger_hits (plain_lib (\<lambda>q i. 0)) (S ''prankster km'') (S ''km'')"
  by code_simp

text \<open>
  C8. The source tests a joke/troll trigger by containment (\<^verbatim>\<open>kw_norm in query\<close>), not by
  a whole-word match as the other three loops of the same function do. For the input
  \<^verbatim>\<open>jokester\<close> the trigger \<^verbatim>\<open>joke\<close> occurs inside a longer word only and no trigger is a
  whole-word match, a lemma match or similar above 0.8, yet the classifier answers
  \<^verbatim>\<open>joke_or_troll\<close>.
\<close>

theorem jokester_is_troll:
  "detect_intent (plain_lib (\<lambda>q i. 0)) (S ''jokester'') = Some (S ''joke_or_troll'') \<and>
   py_in (S ''joke'') (S ''jokester'') \<and>
   \<not> any_keyword (spec_troll_hit (plain_lib (\<lambda>q i. 0)) (S ''jokester'') (S ''jokester''))
       (keywords_of (S ''joke_or_troll''))"
  by code_simp


subsection \<open>Exact matches\<close>

lemma hello_corpus_branch: "corpus_branch (plain_lib (\<lambda>q i. 0)) hello_engine (S ''hello'')"
  by code_simp

lemma hello_matches:
  "hello_entry \<in> set (qa_list hello_engine)"
  "normalize_text (plain_lib (\<lambda>q i. 0)) (S ''hello'') =
     norm_question (plain_lib (\<lambda>q i. 0)) hello_entry"
  "exact_match (plain_lib (\<lambda>q i. 0)) (normalize_text (plain_lib (\<lambda>q i. 0)) (S ''hello''))
     (qa_list hello_engine) = Some hello_entry"
  "assistant hello_entry = S ''Hello! Ask me about Morocco.''"
  by code_simp+

lemma rain_answer:
  "get_answer (plain_lib (\<lambda>q i. 0)) rain_engine (S ''rain'') 1 =
     Inr [(S ''Sure! Which city do you want the weather for?'', 0.5)]"
  by code_simp

lemma rain_matches:
  "rain_entry \<in> set (qa_list rain_engine)"
  "normalize_text (plain_lib (\<lambda>q i. 0)) (S ''rain'') =
     norm_question (plain_lib (\<lambda>q i. 0)) rain_entry"
  by code_simp+

lemma exact_match_first:
  "e \<in> set qa \<Longrightarrow> q = norm_question L e \<Longrightarrow>
   \<exists>first. exact_match L q qa = Some first \<and> norm_question L first = q"
  by (induction qa) auto

lemma exact_answers:
  assumes "exact_match L q (qa_list R) = Some first"
  shows "generic_answer L R q di = [(assistant first, 1)]"
    and "moroccan_city_answer L R c k q di = [(assistant first, 1)]"
    and "general_morocco_answer L R k q di = [(assistant first, 1)]"
  using assms
  by (simp_all add: generic_answer_def moroccan_city_answer_def general_morocco_answer_def)

lemma corpus_branch_answer:
  assumes "corpus_branch L R u"
  shows "get_answer L R u k = Inr (answer_moroccan_city_query L R u (the (fst (projr (detect_city L (city_detector R) u)))) k) \<or>
         get_answer L R u k = Inr (answer_general_morocco_query L R u k) \<or>
         get_answer L R u k = Inr (answer_generic_query L R u (detect_intent L u) k)"
proof -
  from assms have ne: "py_strip u \<noteq> []"
    and ni: "detect_intent L u \<noteq> Some (S ''ask_weather'')"
      "detect_intent L u \<noteq> Some (S ''ask_distance'')"
    by (simp_all add: corpus_branch_def special_intent_def)
  from assms obtain found where f: "detect_city L (city_detector R) u = Inr found"
    and c: "fst found \<noteq> None \<or>
          (snd found = None \<and> \<not> names_foreign_country L (city_detector R) u)"
    by (auto simp: corpus_branch_def split: sum.splits)
  have g: "get_answer L R u k =
      decision_tree L R u k (fst found) (snd found) (detect_country L (city_detector R) u)
        (is_morocco_mentioned L u) (detect_intent L u)"
    using ne ni f by (simp add: get_answer_def branches_def)
  show ?thesis
  proof (cases "fst found")
    case (Some m)
    then show ?thesis using g f by (simp add: decision_tree_def)
  next
    case None
    with c have s: "snd found = None" and nf: "\<not> names_foreign_country L (city_detector R) u"
      by simp_all
    from nf have "\<not> (detect_country L (city_detector R) u \<noteq> None \<and>
        the (detect_country L (city_detector R) u) \<noteq> [] \<and>
        u_lower L (the (detect_country L (city_detector R) u)) \<noteq> S ''morocco'')"
      by (auto simp: names_foreign_country_def split: option.splits)
    then show ?thesis using g None s by (auto simp: decision_tree_def)
  qed
qed

text \<open>
  C1. The exact-match rule lives inside the three corpus answerers
  (\<^verbatim>\<open>_answer_moroccan_city_query\<close>, \<^verbatim>\<open>_answer_general_morocco_query\<close>,
  \<^verbatim>\<open>_answer_generic_query\<close>), where it is the first thing tried.  So for an input
  that is not blank, whose intent is neither \<^verbatim>\<open>ask_weather\<close> nor \<^verbatim>\<open>ask_distance\<close>,
  and for which a Moroccan city is detected, or else no global city and no country other
  than Morocco, an entry whose normalized question equals the normalized input makes
  \<^verbatim>\<open>get_answer\<close> return exactly one pair: the answer of the first such entry, with
  score 1.0.  The weather and distance branches, the global-city branch and the
  foreign-country branch are entered before the corpus is consulted.
\<close>

theorem exact_match_in_corpus_branches:
  assumes "corpus_branch L R user_input"
    and "e \<in> set (qa_list R)"
    and "normalize_text L user_input = norm_question L e"
  shows "\<exists>first. exact_match L (normalize_text L user_input) (qa_list R) = Some first \<and>
           norm_question L first = normalize_text L user_input \<and>
           get_answer L R user_input top_k = Inr [(assistant first, 1.0)]"
proof -
  from exact_match_first [OF assms(2,3)] obtain first where
    m: "exact_match L (normalize_text L user_input) (qa_list R) = Some first"
    and n: "norm_question L first = normalize_text L user_input"
    by blast
  have "get_answer L R user_input top_k = Inr [(assistant first, 1)]"
    using corpus_branch_answer [OF assms(1), of top_k] exact_answers [OF m]
    by (auto simp: answer_moroccan_city_query_def answer_general_morocco_query_def
        answer_generic_query_def)
  with m n show ?thesis by simp
qed

theorem exact_match_in_corpus_branches_witness:
  "corpus_branch (plain_lib (\<lambda>q i. 0)) hello_engine (S ''hello'') \<and>
   hello_entry \<in> set (qa_list hello_engine) \<and>
   normalize_text (plain_lib (\<lambda>q i. 0)) (S ''hello'') =
     norm_question (plain_lib (\<lambda>q i. 0)) hello_entry \<and>
   get_answer (plain_lib (\<lambda>q i. 0)) hello_engine (S ''hello'') 3 =
     Inr [(S ''Hello! Ask me about Morocco.'', 1.0)]"
  using exact_match_in_corpus_branches
          [OF hello_corpus_branch hello_matches(1) hello_matches(2), of 3]
        hello_corpus_branch hello_matches
  by simp

text \<open>
  On the weather branch the exact-match rule is not reached: the corpus holds the question
  ``Rain?'', the input ``rain'' normalizes to the same text, and the reply is the
  weather prompt with score 0.5, not the stored answer with score 1.0.
\<close>

theorem exact_match_loses_to_weather:
  "rain_entry \<in> set (qa_list rain_engine) \<and>
   normalize_text (plain_lib (\<lambda>q i. 0)) (S ''rain'') =
     norm_question (plain_lib (\<lambda>q i. 0)) rain_entry \<and>
   get_answer (plain_lib (\<lambda>q i. 0)) rain_engine (S ''rain'') 1 =
     Inr [(S ''Sure! Which city do you want the weather for?'', 0.5)] \<and>
   get_answer (plain_lib (\<lambda>q i. 0)) rain_engine (S ''rain'') 1 \<noteq>
     Inr [(assistant rain_entry, 1.0)]"
  using rain_matches rain_answer by simp


subsection \<open>Order and range of the returned scores\<close>

lemma hi_morocco_answer:
  "get_answer (plain_lib (\<lambda>q i. 1)) morocco_engine (S ''hi morocco'') 1 =
     Inr [(S ''Morocco lies in North Africa.'', 331 / 272)]"
  by code_simp

lemma hi_morocco_bounded:
  "scores_bounded (plain_lib (\<lambda>q i. 1)) morocco_engine (S ''hi morocco'')"
  by code_simp

lemma descending_single [simp]: "descending [a]"
  by (simp add: descending_def)

lemma scores_within_single [simp]: "scores_within hi [(t, s)] \<longleftrightarrow> 0 \<le> s \<and> s \<le> hi"
  by (simp add: scores_within_def)

lemma descending_insort:
  "descending xs \<Longrightarrow> descending (insort_key (\<lambda>x. - snd x) a xs)"
  unfolding descending_def
  by (induction xs) (auto simp: set_insort_key)

lemma descending_sort_desc: "descending (sort_desc xs)"
  unfolding sort_desc_def
proof (induction xs)
  case Nil
  show ?case by (simp add: descending_def)
next
  case (Cons a xs)
  then show ?case by (simp add: descending_insort)
qed

lemma set_sort_desc: "set (sort_desc xs) = set xs"
  by (simp add: sort_desc_def)

lemma descending_take: "descending xs \<Longrightarrow> descending (take n xs)"
  unfolding descending_def by (rule sorted_wrt_take)

lemma descending_py_take: "descending xs \<Longrightarrow> descending (py_take k xs)"
  by (simp add: py_take_def descending_take)

lemma scores_within_subset:
  "scores_within hi xs \<Longrightarrow> set ys \<subseteq> set xs \<Longrightarrow> scores_within hi ys"
  by (auto simp: scores_within_def list_all_iff)

lemma set_py_take: "set (py_take k xs) \<subseteq> set xs"
  by (auto simp: py_take_def dest: in_set_takeD)

lemma scores_within_mono: "scores_within a xs \<Longrightarrow> a \<le> b \<Longrightarrow> scores_within b xs"
  by (auto simp: scores_within_def list_all_iff)

lemma random_fallback_ok: "descending (random_fallback L) \<and> scores_within 1 (random_fallback L)"
  by (simp add: random_fallback_def)

lemma list_case_nonempty:
  "(case ys of [] \<Rightarrow> f | a # as \<Rightarrow> g (a # as)) = (if ys = [] then f else g ys)"
  by (cases ys) simp_all

lemma scores_bounded_nth:
  assumes "scores_bounded L R u" "i < length (qa_list R)"
  shows "0 \<le> tfidf L (normalize_text L u) i" "tfidf L (normalize_text L u) i \<le> 1"
    "0 \<le> fuzzy_similarity L (normalize_text L u) (norm_question L (qa_list R ! i))"
    "fuzzy_similarity L (normalize_text L u) (norm_question L (qa_list R ! i)) \<le> 1"
  using assms by (simp_all add: scores_bounded_def list_all_iff)

lemma blended_unit:
  assumes "scores_bounded L R u" "i < length (qa_list R)"
  shows "0 \<le> blended L R 0.6 0.4 (normalize_text L u) i \<and>
         blended L R 0.6 0.4 (normalize_text L u) i \<le> 1 \<and>
         0 \<le> blended L R 0.85 0.15 (normalize_text L u) i \<and>
         blended L R 0.85 0.15 (normalize_text L u) i \<le> 1"
  using scores_bounded_nth [OF assms] by (simp add: blended_def)

lemma scored_candidates_within:
  assumes "scores_bounded L R u" "\<forall>i \<in> set idxs. i < length (qa_list R)"
  shows "scores_within 1 (scored_candidates L R (normalize_text L u) idxs)"
  using assms blended_unit [OF assms(1)]
  by (auto simp: scores_within_def scored_candidates_def list_all_iff)

lemma boost_sum_nonneg: "0 \<le> boost_sum cq ws"
  by (induction ws) auto

lemma boosted_bounds:
  assumes "0 \<le> s" "s \<le> 1"
  shows "0 \<le> boosted L q cq s \<and> boosted L q cq s \<le> 1.8"
proof -
  let ?m = "min 0.80 (boost_sum cq (key_words L q))"
  have m: "0 \<le> ?m" "?m \<le> 0.8" using boost_sum_nonneg [of cq "key_words L q"] by simp_all
  have "s * (1 + ?m) \<le> 1 * (1 + ?m)" using assms m by (intro mult_right_mono) simp_all
  then have up: "s * (1 + ?m) \<le> 1.8" using m by simp
  have lo: "0 \<le> s * (1 + ?m)" using assms m by simp
  show ?thesis using assms up lo by (simp add: boosted_def)
qed

lemma morocco_scored_within:
  assumes "scores_bounded L R u" "\<forall>i \<in> set idxs. i < length (qa_list R)"
  shows "scores_within 1.8 (morocco_scored L R (normalize_text L u) idxs)"
proof -
  have "0 \<le> boosted L (normalize_text L u) cq (blended L R 0.85 0.15 (normalize_text L u) idx) \<and>
        boosted L (normalize_text L u) cq (blended L R 0.85 0.15 (normalize_text L u) idx) \<le> 1.8"
    if "idx \<in> set idxs" for idx cq
  proof -
    from that assms(2) have "idx < length (qa_list R)" by simp
    from blended_unit [OF assms(1) this] show ?thesis by (intro boosted_bounds) simp_all
  qed
  then show ?thesis
    unfolding scores_within_def morocco_scored_def list_all_iff by fastforce
qed

lemma base_candidates_lt: "\<forall>i \<in> set (base_candidates L R). i < length (qa_list R)"
  by (simp add: base_candidates_def)

lemma narrow_subset: "set (narrow keep idxs) \<subseteq> set idxs"
  by (auto simp: narrow_def)

lemma narrow_by_intent_subset: "set (narrow_by_intent L R di idxs) \<subseteq> set idxs"
  using narrow_subset by (auto simp: narrow_by_intent_def split: option.splits)

lemma index_of_lt: "e \<in> set xs \<Longrightarrow> index_of e xs < length xs"
  by (induction xs) auto

lemma general_idxs_lt:
  "\<forall>i \<in> set (map (\<lambda>e. index_of e (qa_list R))
       (filter (\<lambda>e. norm_intent L e = S ''general_morocco'') (qa_list R))). i < length (qa_list R)"
  by (auto simp: index_of_lt)

lemma Max_tfidf_unit:
  assumes "scores_bounded L R u" "\<forall>i \<in> set idxs. i < length (qa_list R)" "idxs \<noteq> []"
  shows "0 \<le> Max (set (map (tfidf L (normalize_text L u)) idxs)) \<and>
         Max (set (map (tfidf L (normalize_text L u)) idxs)) \<le> 1"
proof -
  let ?A = "set (map (tfidf L (normalize_text L u)) idxs)"
  have "finite ?A" "?A \<noteq> {}" using assms(3) by simp_all
  then have "Max ?A \<in> ?A" by (rule Max_in)
  then obtain i where "i \<in> set idxs" "Max ?A = tfidf L (normalize_text L u) i" by auto
  then show ?thesis using scores_bounded_nth(1,2) [OF assms(1)] assms(2) by simp
qed

lemma good_single: "0 \<le> s \<Longrightarrow> s \<le> hi \<Longrightarrow> good hi [(t, s)]"
  by (simp add: good_def)

lemma good_mono: "good a xs \<Longrightarrow> a \<le> b \<Longrightarrow> good b xs"
  by (auto simp: good_def intro: scores_within_mono)

lemma good_fallback: "1 \<le> hi \<Longrightarrow> good hi (random_fallback L)"
  using random_fallback_ok [of L] by (auto simp: good_def intro: scores_within_mono)

lemma good_ranked:
  assumes "scores_within hi xs" "good hi fb"
  shows "good hi (case sort_desc xs of [] \<Rightarrow> fb | a # as \<Rightarrow> py_take k (a # as))"
    and "good hi (case sort_desc xs of [] \<Rightarrow> fb | a # as \<Rightarrow> take 1 (a # as))"
proof -
  have w: "scores_within hi (sort_desc xs)"
    using assms(1) by (rule scores_within_subset) (simp add: set_sort_desc)
  have g1: "good hi (py_take k (sort_desc xs))"
    unfolding good_def
    using descending_py_take [OF descending_sort_desc, of k xs]
      scores_within_subset [OF w set_py_take [of k "sort_desc xs"]] by simp
  have g2: "good hi (take 1 (sort_desc xs))"
    unfolding good_def
    using descending_take [OF descending_sort_desc, of 1 xs]
      scores_within_subset [OF w set_take_subset [of 1 "sort_desc xs"]] by simp
  show "good hi (case sort_desc xs of [] \<Rightarrow> fb | a # as \<Rightarrow> py_take k (a # as))"
    using g1 assms(2) by (cases "sort_desc xs") simp_all
  show "good hi (case sort_desc xs of [] \<Rightarrow> fb | a # as \<Rightarrow> take 1 (a # as))"
    using g2 assms(2) by (cases "sort_desc xs") simp_all
qed

lemma generic_answer_good:
  assumes "scores_bounded L R u"
  shows "good 1 (generic_answer L R (normalize_text L u) di)"
proof (cases "exact_match L (normalize_text L u) (qa_list R)")
  case (Some entry)
  then show ?thesis by (simp add: generic_answer_def good_single)
next
  case None
  show ?thesis
  proof (cases "immediate_candidates L R di \<noteq> []")
    case True
    with None show ?thesis by (simp add: generic_answer_def good_single)
  next
    case False
    let ?X = "narrow_by_intent L R di (base_candidates L R)"
    have lt: "\<forall>i \<in> set ?X. i < length (qa_list R)"
      using narrow_by_intent_subset [of L R di "base_candidates L R"] base_candidates_lt [of L R]
      by blast
    show ?thesis
    proof (cases ?X)
      case Nil
      with None False show ?thesis by (simp add: generic_answer_def good_fallback)
    next
      case (Cons i idxs)
      have "good 1 (case sort_desc (scored_candidates L R (normalize_text L u) ?X) of
          [] \<Rightarrow> random_fallback L | a # as \<Rightarrow> take 1 (a # as))"
        by (rule good_ranked(2) [OF scored_candidates_within [OF assms lt]])
          (simp add: good_fallback)
      with None False Cons show ?thesis by (simp add: generic_answer_def)
    qed
  qed
qed

lemma moroccan_city_answer_good:
  assumes "scores_bounded L R u"
  shows "good 1 (moroccan_city_answer L R c k (normalize_text L u) di)"
proof (cases "exact_match L (normalize_text L u) (qa_list R)")
  case (Some entry)
  then show ?thesis by (simp add: moroccan_city_answer_def good_single)
next
  case None
  show ?thesis
  proof (cases "immediate_candidates L R di \<noteq> []")
    case True
    with None show ?thesis by (simp add: moroccan_city_answer_def good_single)
  next
    case False
    let ?X = "narrow_by_intent L R di
        (narrow (\<lambda>i. norm_city L (qa_list R ! i) = c) (base_candidates L R))"
    have lt: "\<forall>i \<in> set ?X. i < length (qa_list R)"
      using narrow_by_intent_subset [of L R di
          "narrow (\<lambda>i. norm_city L (qa_list R ! i) = c) (base_candidates L R)"]
        narrow_subset [of "\<lambda>i. norm_city L (qa_list R ! i) = c" "base_candidates L R"]
        base_candidates_lt [of L R]
      by blast
    show ?thesis
    proof (cases ?X)
      case Nil
      with None False show ?thesis by (simp add: moroccan_city_answer_def good_fallback)
    next
      case (Cons i idxs)
      have "good 1 (case sort_desc (scored_candidates L R (normalize_text L u) ?X) of
          [] \<Rightarrow> random_fallback L | a # as \<Rightarrow> py_take k (a # as))"
        by (rule good_ranked(1) [OF scored_candidates_within [OF assms lt]])
          (simp add: good_fallback)
      with None False Cons show ?thesis by (simp add: moroccan_city_answer_def)
    qed
  qed
qed

lemma general_morocco_answer_good:
  assumes "scores_bounded L R u"
  shows "good 1.8 (general_morocco_answer L R k (normalize_text L u) di)"
proof (cases "exact_match L (normalize_text L u) (qa_list R)")
  case (Some entry)
  then show ?thesis by (simp add: general_morocco_answer_def good_single)
next
  case None
  show ?thesis
  proof (cases "immediate_candidates L R di \<noteq> []")
    case True
    with None show ?thesis by (simp add: general_morocco_answer_def good_single)
  next
    case False
    let ?X = "map (\<lambda>e. index_of e (qa_list R))
        (filter (\<lambda>e. norm_intent L e = S ''general_morocco'') (qa_list R))"
    have lt: "\<forall>i \<in> set ?X. i < length (qa_list R)" by (rule general_idxs_lt)
    show ?thesis
    proof (cases ?X)
      case Nil
      with None False show ?thesis by (simp add: general_morocco_answer_def good_fallback)
    next
      case (Cons i idxs)
      have lt': "\<forall>j \<in> set (i # idxs). j < length (qa_list R)" using lt Cons by simp
      have ne: "i # idxs \<noteq> []" by simp
      define M where "M = Max (set (map (tfidf L (normalize_text L u)) (i # idxs)))"
      have mx: "0 \<le> M" "M \<le> 1"
        unfolding M_def using Max_tfidf_unit [OF assms lt' ne] by blast+
      let ?fb = "[(assistant (qa_list R !
                    ((i # idxs) ! argmax (map (tfidf L (normalize_text L u)) (i # idxs)))), M)]"
      have fb: "good 1.8 ?fb"
        using mx by (intro good_single) simp_all
      have "good 1.8 (case sort_desc (morocco_scored L R (normalize_text L u) (i # idxs)) of
          [] \<Rightarrow> ?fb | a # as \<Rightarrow> py_take k (a # as))"
        by (rule good_ranked(1) [OF morocco_scored_within [OF assms lt'] fb])
      then have "good 1.8 (general_morocco_answer L R k (normalize_text L u) di)"
        unfolding general_morocco_answer_def M_def None Cons using False by simp
      then show ?thesis .
    qed
  qed
qed

lemma weather_branch_good: "good 1 (weather_branch L m g)"
  by (simp add: weather_branch_def good_single split: option.splits)

lemma distance_branch_good: "good 1 (distance_branch L R u)"
  by (simp add: distance_branch_def good_single split: option.splits prod.splits)

lemma foreign_condition:
  "(detect_country L D u \<noteq> None \<and> the (detect_country L D u) \<noteq> [] \<and>
    u_lower L (the (detect_country L D u)) \<noteq> S ''morocco'') \<longleftrightarrow>
   names_foreign_country L D u"
  by (cases "detect_country L D u") (simp_all add: names_foreign_country_def)

lemma decision_tree_none:
  "decision_tree L R u k None None (detect_country L (city_detector R) u) mm di =
     (if names_foreign_country L (city_detector R) u
      then Inr [(foreign_country_message L (the (detect_country L (city_detector R) u)), 0.3)]
      else if mm then Inr (answer_general_morocco_query L R u k)
      else Inr (answer_generic_query L R u di k))"
  unfolding decision_tree_def foreign_condition by simp

lemma decision_tree_good:
  assumes "scores_bounded L R u"
    and "decision_tree L R u k m g (detect_country L (city_detector R) u)
           (is_morocco_mentioned L u) di = Inr xs"
  shows "good 1 xs \<or>
         (m = None \<and> g = None \<and> \<not> names_foreign_country L (city_detector R) u \<and>
          is_morocco_mentioned L u \<and> good 1.8 xs)"
proof (cases m)
  case (Some c)
  with assms(2) have "xs = answer_moroccan_city_query L R u c k"
    by (simp add: decision_tree_def)
  then show ?thesis
    using moroccan_city_answer_good [OF assms(1)] by (simp add: answer_moroccan_city_query_def)
next
  case m: None
  show ?thesis
  proof (cases g)
    case (Some row)
    with m assms(2) obtain w where "xs = [(w, 1)]"
      by (auto simp: decision_tree_def split: sum.splits)
    then show ?thesis by (simp add: good_single)
  next
    case g: None
    note dt = assms(2) [unfolded m g decision_tree_none]
    show ?thesis
    proof (cases "names_foreign_country L (city_detector R) u")
      case True
      with dt have "xs = [(foreign_country_message L
          (the (detect_country L (city_detector R) u)), 0.3)]"
        by simp
      then show ?thesis by (simp add: good_single)
    next
      case nf: False
      show ?thesis
      proof (cases "is_morocco_mentioned L u")
        case True
        with nf dt have "xs = answer_general_morocco_query L R u k" by simp
        then have "good 1.8 xs"
          using general_morocco_answer_good [OF assms(1)]
          by (simp add: answer_general_morocco_query_def)
        with m g nf True show ?thesis by simp
      next
        case False
        with nf dt have "xs = answer_generic_query L R u di k" by simp
        then show ?thesis
          using generic_answer_good [OF assms(1)] by (simp add: answer_generic_query_def)
      qed
    qed
  qed
qed

lemma get_answer_good:
  assumes "scores_bounded L R u" and "get_answer L R u k = Inr xs"
  shows "good 1 xs \<or> (general_morocco_branch L R u \<and> good 1.8 xs)"
proof (cases "py_strip u = []")
  case True
  with assms(2) have "xs = [(S ''Please ask a question.'', 0)]" by (simp add: get_answer_def)
  then show ?thesis by (simp add: good_single)
next
  case ne: False
  with assms(2) obtain found where f: "detect_city L (city_detector R) u = Inr found"
    and b: "branches L R u k (fst found) (snd found) (detect_country L (city_detector R) u)
        (is_morocco_mentioned L u) (detect_intent L u) = Inr xs"
    by (auto simp: get_answer_def split: sum.splits)
  show ?thesis
  proof (cases "special_intent L u")
    case True
    with b have "xs = weather_branch L (fst found) (snd found) \<or> xs = distance_branch L R u"
      by (auto simp: branches_def special_intent_def split: if_splits)
    then show ?thesis
      using weather_branch_good [of L "fst found" "snd found"] distance_branch_good [of L R u]
      by (elim disjE) simp_all
  next
    case False
    with b have "decision_tree L R u k (fst found) (snd found)
        (detect_country L (city_detector R) u) (is_morocco_mentioned L u) (detect_intent L u) =
        Inr xs"
      by (auto simp: branches_def special_intent_def split: if_splits)
    from decision_tree_good [OF assms(1) this] show ?thesis
    proof
      assume "good 1 xs"
      then show ?thesis by simp
    next
      assume a: "fst found = None \<and> snd found = None \<and>
          \<not> names_foreign_country L (city_detector R) u \<and>
          is_morocco_mentioned L u \<and> good 1.8 xs"
      then have "found = (None, None)" by (cases found) simp
      with a f ne False have "general_morocco_branch L R u"
        by (simp add: general_morocco_branch_def)
      with a show ?thesis by simp
    qed
  qed
qed

text \<open>
  C2. Whenever the TF-IDF cosine and the fuzzy ratio of the libraries lie in \<open>[0, 1]\<close>,
  every list returned by \<^verbatim>\<open>get_answer\<close> is sorted by descending score and every
  score lies in \<open>[0, 1.8]\<close>; outside the general-Morocco branch every score lies in
  \<open>[0, 1]\<close>.  The general-Morocco branch multiplies the blended score by
  \<open>1 + boost\<close> with \<open>boost \<le> 0.8\<close> and does not clamp the product.
\<close>

theorem answers_sorted_bounded:
  assumes "scores_bounded L R user_input"
    and "get_answer L R user_input top_k = Inr xs"
  shows "descending xs \<and> scores_within 1.8 xs \<and>
         (general_morocco_branch L R user_input \<or> scores_within 1 xs)"
  using get_answer_good [OF assms] good_mono [of 1 xs "1.8"]
  by (auto simp: good_def)

theorem answers_sorted_bounded_witness:
  "scores_bounded (plain_lib (\<lambda>q i. 1)) morocco_engine (S ''hi morocco'') \<and>
   get_answer (plain_lib (\<lambda>q i. 1)) morocco_engine (S ''hi morocco'') 1 =
     Inr [(S ''Morocco lies in North Africa.'', 331 / 272)] \<and>
   descending [(S ''Morocco lies in North Africa.'', 331 / 272 :: real)] \<and>
   scores_within 1.8 [(S ''Morocco lies in North Africa.'', 331 / 272 :: real)] \<and>
   general_morocco_branch (plain_lib (\<lambda>q i. 1)) morocco_engine (S ''hi morocco'')"
  using answers_sorted_bounded [OF hi_morocco_bounded hi_morocco_answer]
        hi_morocco_bounded hi_morocco_answer
  by (simp add: scores_within_def)

text \<open>
  The upper bound 1 fails in the general-Morocco branch.  The corpus holds the single
  question ``Morocco'' with intent \<^verbatim>\<open>general_morocco\<close>; for the input ``hi morocco'' the
  TF-IDF cosine is 1 (the only vocabulary term is shared), the fuzzy ratio is
  \<open>14/17\<close>, the blended score \<open>0.85 + 0.15 * 14/17\<close> is multiplied by \<open>1.25\<close> for the
  seven-letter key word, and the returned score is \<open>331/272 > 1\<close>.
\<close>

theorem general_morocco_score_exceeds_one:
  "scores_bounded (plain_lib (\<lambda>q i. 1)) morocco_engine (S ''hi morocco'') \<and>
   get_answer (plain_lib (\<lambda>q i. 1)) morocco_engine (S ''hi morocco'') 1 =
     Inr [(S ''Morocco lies in North Africa.'', 331 / 272)] \<and>
   (1 :: real) < 331 / 272"
  using hi_morocco_bounded hi_morocco_answer by simp


end
